theory Spec2Isabelle
  imports Complex_Main
begin

unbundle bit_operations_syntax

section \<open>JavaScript values used by the plugin\<close>

text \<open>
  A field of a TypeScript object may hold \<open>undefined\<close> or \<open>null\<close> besides a value of
  its declared type. The two are kept apart: they print differently and only the loose
  comparison \<open>x == null\<close> identifies them.
\<close>

datatype 'a nullable = Undefined | Null | Val 'a

text \<open>\<open>x == null\<close> (and the negation of \<open>x != null\<close>).\<close>

fun nullish :: "'a nullable \<Rightarrow> bool" where
  "nullish Undefined = True"
| "nullish Null = True"
| "nullish (Val _) = False"

text \<open>
  A JavaScript number: a finite value, one of the two infinities, or NaN. Finite values
  are real numbers here; rounding to binary64 is outside the model. The comparisons are
  those of the language: every comparison with NaN is false.
\<close>

datatype number = NaN | NegInf | Fin real | PosInf

fun num_lt :: "number \<Rightarrow> number \<Rightarrow> bool" where
  "num_lt NaN _ = False"
| "num_lt _ NaN = False"
| "num_lt PosInf _ = False"
| "num_lt _ NegInf = False"
| "num_lt NegInf _ = True"
| "num_lt _ PosInf = True"
| "num_lt (Fin a) (Fin b) = (a < b)"

fun num_eq :: "number \<Rightarrow> number \<Rightarrow> bool" where
  "num_eq NaN _ = False"
| "num_eq _ NaN = False"
| "num_eq a b = (a = b)"

text \<open>\<open>a <= b\<close>, \<open>a > b\<close> of the language.\<close>

definition num_le :: "number \<Rightarrow> number \<Rightarrow> bool" where
  "num_le a b = (num_lt a b \<or> num_eq a b)"

definition num_gt :: "number \<Rightarrow> number \<Rightarrow> bool" where
  "num_gt a b = num_lt b a"

text \<open>\<open>isNaN\<close> on a number.\<close>

fun isNaN :: "number \<Rightarrow> bool" where
  "isNaN NaN = True"
| "isNaN _ = False"

text \<open>Loose equality \<open>a == b\<close> of two fields that hold a number, null or undefined.\<close>

fun loose_eq_num :: "number nullable \<Rightarrow> number nullable \<Rightarrow> bool" where
  "loose_eq_num (Val a) (Val b) = num_eq a b"
| "loose_eq_num (Val _) _ = False"
| "loose_eq_num _ (Val _) = False"
| "loose_eq_num _ _ = True"

text \<open>Truthiness of a boolean field that may be unset.\<close>

fun truthy_bool :: "bool nullable \<Rightarrow> bool" where
  "truthy_bool (Val b) = b"
| "truthy_bool _ = False"

text \<open>Truthiness of a string field: the empty string, null and undefined are falsy.\<close>

fun truthy_str :: "string nullable \<Rightarrow> bool" where
  "truthy_str (Val s) = (s \<noteq> [])"
| "truthy_str _ = False"

section \<open>utils: getId\<close>

text \<open>
  \<open>ToInt32\<close> of a number, as \<open>x | 0\<close> computes it: truncation towards zero, then the
  value modulo \<open>2^32\<close> read as a signed 32-bit integer; NaN and the infinities give 0.
\<close>

definition wrap32 :: "int \<Rightarrow> int" where
  "wrap32 i = (let m = i mod 4294967296 in if m \<ge> 2147483648 then m - 4294967296 else m)"

fun toInt32 :: "number \<Rightarrow> int" where
  "toInt32 (Fin x) = wrap32 (if x < 0 then - \<lfloor>- x\<rfloor> else \<lfloor>x\<rfloor>)"
| "toInt32 _ = 0"

text \<open>\<open>n.toString(radix)\<close> for an integer \<open>n\<close>: lowercase digits, a minus sign first.\<close>

definition digit_char :: "nat \<Rightarrow> char" where
  "digit_char d = ''0123456789abcdefghijklmnopqrstuvwxyz'' ! d"

function digits_radix :: "nat \<Rightarrow> nat \<Rightarrow> string" where
  "digits_radix b n =
     (if b < 2 \<or> n < b then [digit_char n]
      else digits_radix b (n div b) @ [digit_char (n mod b)])"
  by pat_completeness auto
termination
  by (relation "measure snd") auto

declare digits_radix.simps [simp del]

definition int_toString :: "nat \<Rightarrow> int \<Rightarrow> string" where
  "int_toString radix v =
     (if v < 0 then CHR ''-'' # digits_radix radix (nat (- v)) else digits_radix radix (nat v))"

text \<open>
  The callback of \<open>getId\<close>, given the value \<open>Math.random()\<close> returned for this
  character:
  \<^verbatim>\<open>var r = (Math.random() * 16) | 0, v = c == "x" ? r : (r & 0x3) | 0x8;
  return v.toString(16);\<close>
\<close>

definition getId_callback :: "real \<Rightarrow> char \<Rightarrow> string" where
  "getId_callback rand c =
     (let r = toInt32 (Fin (rand * 16));
          v = (if c = CHR ''x'' then r else (r AND 3) OR 8)
      in int_toString 16 v)"

text \<open>
  \<open>template.replace(/[xy]/g, callback)\<close>: every \<open>x\<close> or \<open>y\<close> is replaced by what the
  callback returns for it, left to right. \<open>rnd k\<close> is the value of the \<open>k\<close>-th call of
  \<open>Math.random()\<close>.
\<close>

fun replace_xy :: "(nat \<Rightarrow> real) \<Rightarrow> nat \<Rightarrow> string \<Rightarrow> string" where
  "replace_xy rnd k [] = []"
| "replace_xy rnd k (c # cs) =
     (if c = CHR ''x'' \<or> c = CHR ''y''
      then getId_callback (rnd k) c @ replace_xy rnd (Suc k) cs
      else c # replace_xy rnd k cs)"

definition getId :: "(nat \<Rightarrow> real) \<Rightarrow> string" where
  "getId rnd = replace_xy rnd 0 ''ID_xyxyxyxyxyxy''"

section \<open>layer/marker.ts: the Marker entity\<close>

subsection \<open>Strings\<close>

text \<open>
  Strings are lists of code units below 256. \<open>toLowerCase\<close> on that range maps
  \<open>A\<close>..\<open>Z\<close> and the upper-case letters of Latin-1 (0xC0..0xDE without 0xD7) to
  their lower-case forms, 32 further on.
\<close>

definition lower_char :: "char \<Rightarrow> char" where
  "lower_char c =
     (let n = of_char c :: nat
      in if (65 \<le> n \<and> n \<le> 90) \<or> (192 \<le> n \<and> n \<le> 222 \<and> n \<noteq> 215) then char_of (n + 32) else c)"

definition toLowerCase :: "string \<Rightarrow> string" where
  "toLowerCase s = map lower_char s"

text \<open>
  White space and line terminators of the language among the code units below 256:
  tab, line feed, vertical tab, form feed, carriage return, space, no-break space.
\<close>

definition isSpace :: "char \<Rightarrow> bool" where
  "isSpace c = (of_char c \<in> {9::nat, 10, 11, 12, 13, 32, 160})"

definition trim :: "string \<Rightarrow> string" where
  "trim s = rev (dropWhile isSpace (rev (dropWhile isSpace s)))"

text \<open>The template literal \<open>`${x}`\<close> for a string or boolean field.\<close>

fun template_str :: "string nullable \<Rightarrow> string" where
  "template_str Undefined = ''undefined''"
| "template_str Null = ''null''"
| "template_str (Val s) = s"

fun template_bool :: "bool nullable \<Rightarrow> string" where
  "template_bool Undefined = ''undefined''"
| "template_bool Null = ''null''"
| "template_bool (Val b) = (if b then ''true'' else ''false'')"

text \<open>
  \<open>s.replace(c, r)\<close> for a pattern that matches the single character \<open>c\<close> (no
  \<open>g\<close> flag: the first occurrence only) and a replacement \<open>r\<close> without \<open>$\<close>.
\<close>

fun replace_first_char :: "char \<Rightarrow> string \<Rightarrow> string \<Rightarrow> string" where
  "replace_first_char c r [] = []"
| "replace_first_char c r (x # xs) = (if x = c then r @ xs else x # replace_first_char c r xs)"

text \<open>\<open>s.split("|").pop()\<close>: the text after the last \<open>|\<close>.\<close>

definition after_last_pipe :: "string \<Rightarrow> string" where
  "after_last_pipe s = rev (takeWhile (\<lambda>c. c \<noteq> CHR ''|'') (rev s))"

subsection \<open>Link and command targets\<close>

record command =
  cmd_id :: string
  cmd_name :: string

text \<open>What a target displays: a span with a text, or a row with an icon and a text.\<close>

datatype display = Span string | IconRow string string

datatype error = TypeError | SyntaxError

text \<open>
  \<^verbatim>\<open>Link._getDisplay\<close>: nothing for an empty or missing text; else the text with the
  first \<open>^\<close> and the first \<open>#\<close> rewritten, cut to what follows the last \<open>|\<close>.
\<close>

definition link_getDisplay :: "string nullable \<Rightarrow> display nullable" where
  "link_getDisplay text =
     (case text of
        Val t \<Rightarrow>
          if t = [] then Undefined
          else Val (Span (after_last_pipe
                 (replace_first_char (CHR ''#'') '' > '' (replace_first_char (CHR ''^'') '' > ^'' t))))
      | _ \<Rightarrow> Undefined)"

text \<open>
  \<^verbatim>\<open>commands.find(({ id }) => id.toLowerCase() === this.text.toLowerCase().trim())\<close>:
  the callback runs on the commands in order until one matches; it raises a TypeError when
  the text is null or undefined, so the search raises as soon as there is a command to test.
\<close>

fun find_command_ci :: "command list \<Rightarrow> string nullable \<Rightarrow> error + command option" where
  "find_command_ci [] text = Inr None"
| "find_command_ci (c # cs) text =
     (case text of
        Val t \<Rightarrow>
          if toLowerCase (cmd_id c) = trim (toLowerCase t) then Inr (Some c)
          else find_command_ci cs text
      | _ \<Rightarrow> Inl TypeError)"

text \<open>\<^verbatim>\<open>Command._getDisplay\<close>: the name of the command found, or a notice that none was.\<close>

definition command_getDisplay :: "command list \<Rightarrow> string nullable \<Rightarrow> error + display" where
  "command_getDisplay commands text =
     (case find_command_ci commands text of
        Inl e \<Rightarrow> Inl e
      | Inr (Some _) \<Rightarrow>
          (case find_command_ci commands text of
             Inl e \<Rightarrow> Inl e
           | Inr (Some c) \<Rightarrow> Inr (IconRow ''run-command'' (cmd_name c))
           | Inr None \<Rightarrow> Inl TypeError)
      | Inr None \<Rightarrow> Inr (IconRow ''cross'' ''No command found!''))"

text \<open>A target holds its text and the display computed when the text was last set.\<close>

datatype marker_target =
  Link "string nullable" "display nullable"
| Command "string nullable" "display nullable"

fun target_text :: "marker_target \<Rightarrow> string nullable" where
  "target_text (Link t _) = t"
| "target_text (Command t _) = t"

text \<open>The setter \<open>text\<close> of either class.\<close>

fun target_set_text :: "command list \<Rightarrow> marker_target \<Rightarrow> string nullable \<Rightarrow> error + marker_target" where
  "target_set_text commands (Link _ _) text = Inr (Link text (link_getDisplay text))"
| "target_set_text commands (Command _ _) text =
     (case command_getDisplay commands text of
        Inl e \<Rightarrow> Inl e
      | Inr d \<Rightarrow> Inr (Command text (Val d)))"

subsection \<open>The entity\<close>

text \<open>\<open>L.LatLng\<close>, and the three tooltip modes.\<close>

record latLng =
  lat :: number
  lng :: number

datatype tooltipDisplay = Always | Hover | Never

text \<open>
  \<open>MarkerProperties\<close>, the bag the constructor takes. The icon is an object of the map
  library and stays abstract. Every other field may be missing.
\<close>

record 'icon markerProperties =
  p_id :: "string nullable"
  p_icon :: "'icon nullable"
  p_type :: "string nullable"
  p_loc :: latLng
  p_link :: "string nullable"
  p_layer :: "string nullable"
  p_mutable :: "bool nullable"
  p_command :: "bool nullable"
  p_zoom :: "number nullable"
  p_percent :: "(number \<times> number) nullable"
  p_description :: "string nullable"
  p_minZoom :: "number nullable"
  p_maxZoom :: "number nullable"
  p_tooltip :: "tooltipDisplay nullable"

text \<open>\<open>SavedMarkerProperties\<close>, what \<open>toProperties\<close> returns and the settings keep.\<close>

record savedMarkerProperties =
  s_id :: "string nullable"
  s_type :: "string nullable"
  s_loc :: "number \<times> number"
  s_link :: "string nullable"
  s_layer :: "string nullable"
  s_mutable :: "bool nullable"
  s_command :: "bool nullable"
  s_zoom :: "number nullable"
  s_percent :: "(number \<times> number) nullable"
  s_description :: "string nullable"
  s_minZoom :: "number nullable"
  s_maxZoom :: "number nullable"
  s_tooltip :: "tooltipDisplay nullable"

text \<open>
  The presentation proxy made by \<open>divIconMarker\<close>: the options and the data attributes
  the constructor hands over, which the setters keep up to date.
\<close>

record 'icon proxy =
  opt_icon :: "'icon nullable"
  opt_keyboard :: "bool nullable"
  opt_draggable :: "bool nullable"
  data_link :: "string nullable"
  data_mutable :: string
  data_type :: "string nullable"
  on_map :: bool

datatype popup = OwnPopup | MapPopup

record 'icon marker =
  m_target :: marker_target
  m_mutable :: "bool nullable"
  m_type :: "string nullable"
  m_command :: "bool nullable"
  m_leafletInstance :: "'icon proxy"
  m_loc :: latLng
  m_percent :: "(number \<times> number) nullable"
  m_id :: "string nullable"
  m_layer :: "string nullable"
  m_zoom :: "number nullable"
  m_minZoom :: "number nullable"
  m_maxZoom :: "number nullable"
  m_description :: "string nullable"
  m_divIcon :: "'icon nullable"
  m_displayed :: "bool nullable"
  m_tooltip :: "tooltipDisplay nullable"
  m_popup :: "popup nullable"
  m_isBeingHovered :: bool

text \<open>
  What a marker reads from its map: the command palette, the current zoom, whether the
  marker's layer is rendered, and whether the layer has a display group for its type.
\<close>

record mapEnv =
  commands :: "command list"
  getZoom :: number
  layerRendered :: bool
  hasGroup :: bool

text \<open>The accessors \<open>link\<close>, \<open>type\<close>, \<open>mutable\<close> and \<open>command\<close>.\<close>

definition get_link :: "'icon marker \<Rightarrow> string nullable" where
  "get_link m = target_text (m_target m)"

definition set_link :: "mapEnv \<Rightarrow> string nullable \<Rightarrow> 'icon marker \<Rightarrow> error + 'icon marker" where
  "set_link env x m =
     (case target_set_text (commands env) (m_target m) x of
        Inl e \<Rightarrow> Inl e
      | Inr t \<Rightarrow>
          Inr (m\<lparr>m_target := t,
                 m_leafletInstance :=
                   (if nullish (opt_icon (m_leafletInstance m)) then m_leafletInstance m
                    else (m_leafletInstance m)\<lparr>data_link := Val (template_str x)\<rparr>)\<rparr>))"

definition set_command :: "bool nullable \<Rightarrow> 'icon marker \<Rightarrow> 'icon marker" where
  "set_command b m =
     (if truthy_bool b
      then m\<lparr>m_command := b, m_target := Command (get_link m) Undefined\<rparr>
      else m\<lparr>m_command := b, m_target := Link (get_link m) Undefined\<rparr>)"

definition set_mutable :: "bool nullable \<Rightarrow> 'icon marker \<Rightarrow> 'icon marker" where
  "set_mutable x m =
     m\<lparr>m_mutable := x,
       m_leafletInstance :=
         (if nullish (opt_icon (m_leafletInstance m)) then m_leafletInstance m
          else (m_leafletInstance m)\<lparr>data_mutable := template_bool x\<rparr>)\<rparr>"

definition set_type :: "string nullable \<Rightarrow> 'icon marker \<Rightarrow> 'icon marker" where
  "set_type x m =
     m\<lparr>m_type := x,
       m_leafletInstance :=
         (if nullish (opt_icon (m_leafletInstance m)) then m_leafletInstance m
          else (m_leafletInstance m)\<lparr>data_type := Val (template_str x)\<rparr>)\<rparr>"

subsection \<open>Visibility\<close>

text \<open>
  \<^verbatim>\<open>shouldShow(zoom) {
    if (this.minZoom == this.maxZoom && this.minZoom == null) return true;
    if (!this.displayed) {
      if (this.minZoom != null && this.minZoom <= zoom &&
          this.maxZoom != null && zoom <= this.maxZoom) return true;
    }
    return false;
  }\<close>
\<close>

definition shouldShow :: "'icon marker \<Rightarrow> number \<Rightarrow> bool" where
  "shouldShow m z =
     (if loose_eq_num (m_minZoom m) (m_maxZoom m) \<and> nullish (m_minZoom m) then True
      else if \<not> truthy_bool (m_displayed m) \<and>
              (case (m_minZoom m, m_maxZoom m) of
                 (Val lo, Val hi) \<Rightarrow> num_le lo z \<and> num_le z hi
               | _ \<Rightarrow> False)
           then True
      else False)"

text \<open>
  \<^verbatim>\<open>shouldHide(zoom) {
    if (this.displayed) {
      if ((this.minZoom != null && this.minZoom > zoom) ||
          (this.maxZoom != null && zoom > this.maxZoom)) return true;
    }
  }\<close>
  The function returns \<open>true\<close> or falls off its end, which yields \<open>undefined\<close>.
\<close>

definition shouldHide :: "'icon marker \<Rightarrow> number \<Rightarrow> bool nullable" where
  "shouldHide m z =
     (if truthy_bool (m_displayed m) \<and>
         ((case m_minZoom m of Val lo \<Rightarrow> num_gt lo z | _ \<Rightarrow> False) \<or>
          (case m_maxZoom m of Val hi \<Rightarrow> num_gt z hi | _ \<Rightarrow> False))
      then Val True
      else Undefined)"

text \<open>\<open>show\<close> and \<open>hide\<close>: the proxy joins or leaves the display group of its type.\<close>

definition show_marker :: "mapEnv \<Rightarrow> 'icon marker \<Rightarrow> 'icon marker" where
  "show_marker env m =
     (if shouldShow m (getZoom env) \<and> hasGroup env \<and> \<not> truthy_bool (m_displayed m)
      then m\<lparr>m_leafletInstance := (m_leafletInstance m)\<lparr>on_map := True\<rparr>, m_displayed := Val True\<rparr>
      else m)"

definition hide_marker :: "mapEnv \<Rightarrow> 'icon marker \<Rightarrow> 'icon marker" where
  "hide_marker env m =
     (if hasGroup env \<and> truthy_bool (m_displayed m)
      then m\<lparr>m_leafletInstance := (m_leafletInstance m)\<lparr>on_map := False\<rparr>, m_displayed := Val False\<rparr>
      else m)"

subsection \<open>Construction and serialisation\<close>

text \<open>
  The constructor, in the order of its statements. \<open>checkAndAddToMap\<close> belongs to the
  base class \<open>Layer\<close>, whose file is not part of the sources read here: it is taken to
  call \<open>show\<close> when the map reports the marker's layer as rendered. \<open>bindEvents\<close> only
  registers handlers.
\<close>

definition checkAndAddToMap :: "mapEnv \<Rightarrow> 'icon marker \<Rightarrow> 'icon marker" where
  "checkAndAddToMap env m = (if layerRendered env then show_marker env m else m)"

definition new_Marker :: "mapEnv \<Rightarrow> 'icon markerProperties \<Rightarrow> error + 'icon marker" where
  "new_Marker env p =
     (let m0 = \<lparr>m_target = Link (Val []) Undefined,
                m_mutable = Undefined, m_type = Undefined, m_command = Undefined,
                m_leafletInstance =
                  \<lparr>opt_icon = p_icon p, opt_keyboard = p_mutable p, opt_draggable = p_mutable p,
                   data_link = p_link p, data_mutable = template_bool (p_mutable p),
                   data_type = p_type p, on_map = False\<rparr>,
                m_loc = p_loc p, m_percent = Undefined, m_id = Undefined, m_layer = Undefined,
                m_zoom = Undefined, m_minZoom = Undefined, m_maxZoom = Undefined,
                m_description = Undefined, m_divIcon = Undefined, m_displayed = Undefined,
                m_tooltip = Undefined, m_popup = Undefined, m_isBeingHovered = False\<rparr>;
          m1 = (if truthy_bool (p_command p) then m0\<lparr>m_target := Command (p_link p) Undefined\<rparr>
                else if truthy_str (p_link p) then m0\<lparr>m_target := Link (p_link p) Undefined\<rparr>
                else m0);
          m2 = set_type (p_type p) (m1\<lparr>m_id := p_id p\<rparr>);
          m3 = m2\<lparr>m_loc := p_loc p\<rparr>
      in case set_link env (p_link p) m3 of
           Inl e \<Rightarrow> Inl e
         | Inr m4 \<Rightarrow>
             (let m5 = set_mutable (p_mutable p) (m4\<lparr>m_layer := p_layer p\<rparr>);
                  m6 = set_command (p_command p) m5;
                  m7 = m6\<lparr>m_divIcon := p_icon p, m_percent := p_percent p,
                          m_description := p_description p, m_tooltip := p_tooltip p\<rparr>;
                  m8 = m7\<lparr>m_popup := (if m_tooltip m7 = Val Always then Val OwnPopup else Val MapPopup)\<rparr>;
                  m9 = m8\<lparr>m_zoom := p_zoom p, m_minZoom := p_minZoom p, m_maxZoom := p_maxZoom p\<rparr>
              in Inr (checkAndAddToMap env m9)))"

text \<open>\<open>toProperties\<close>.\<close>

definition toProperties :: "'icon marker \<Rightarrow> savedMarkerProperties" where
  "toProperties m =
     \<lparr>s_id = m_id m, s_type = m_type m, s_loc = (lat (m_loc m), lng (m_loc m)),
      s_link = get_link m, s_layer = m_layer m, s_mutable = m_mutable m,
      s_command = m_command m, s_zoom = m_zoom m, s_percent = m_percent m,
      s_description = m_description m, s_minZoom = m_minZoom m, s_maxZoom = m_maxZoom m,
      s_tooltip = m_tooltip m\<rparr>"

text \<open>
  A saved record is turned back into a property bag by wrapping its coordinate pair as a
  \<open>LatLng\<close> and supplying the icon, which the record does not carry. (The types
  \<open>MarkerProperties\<close> and \<open>SavedMarkerProperties\<close> and the map's \<open>addMarker\<close> are
  declared outside the sources read here.)
\<close>

definition fromSaved :: "'icon nullable \<Rightarrow> savedMarkerProperties \<Rightarrow> 'icon markerProperties" where
  "fromSaved icon s =
     \<lparr>p_id = s_id s, p_icon = icon, p_type = s_type s,
      p_loc = \<lparr>lat = fst (s_loc s), lng = snd (s_loc s)\<rparr>,
      p_link = s_link s, p_layer = s_layer s, p_mutable = s_mutable s,
      p_command = s_command s, p_zoom = s_zoom s, p_percent = s_percent s,
      p_description = s_description s, p_minZoom = s_minZoom s, p_maxZoom = s_maxZoom s,
      p_tooltip = s_tooltip s\<rparr>"

section \<open>main.ts: saveSettings\<close>

text \<open>
  A persisted map record: its id, the saved markers, the saved overlays (their shape plays
  no part here), the paths of the documents that show the map, and the time of the last
  access in milliseconds.
\<close>

record 'overlay savedMapData =
  md_id :: "string nullable"
  md_markers :: "savedMarkerProperties list"
  md_overlays :: "'overlay list"
  md_files :: "string list"
  md_lastAccessed :: "int nullable"

text \<open>
  An open map as the plugin lists it (\<open>this.maps\<close>): its id and what its
  \<open>toProperties()\<close> returns at the time of the save. An entry of \<open>this.mapFiles\<close>: a
  document and the ids of the maps it shows.
\<close>

record 'overlay mapInterface =
  map_id :: "string nullable"
  map_toProperties :: "'overlay savedMapData"

record mapFile =
  mf_file :: string
  mf_maps :: "string list"

text \<open>Loose equality \<open>a == b\<close> of two ids.\<close>

fun loose_eq_str :: "string nullable \<Rightarrow> string nullable \<Rightarrow> bool" where
  "loose_eq_str (Val a) (Val b) = (a = b)"
| "loose_eq_str (Val _) _ = False"
| "loose_eq_str _ (Val _) = False"
| "loose_eq_str _ _ = True"

text \<open>\<open>maps.indexOf(map.id) > -1\<close>: strict equality with one of the strings.\<close>

definition includes_id :: "string list \<Rightarrow> string nullable \<Rightarrow> bool" where
  "includes_id ids i = (case i of Val s \<Rightarrow> s \<in> set ids | _ \<Rightarrow> False)"

text \<open>
  The body of the first loop, for one open map: the records of the same id go, and the
  map's current record is pushed with the documents that show it.
\<close>

definition push_map ::
  "mapFile list \<Rightarrow> 'o savedMapData list \<Rightarrow> 'o mapInterface \<Rightarrow> 'o savedMapData list" where
  "push_map mapFiles mapMarkers mp =
     filter (\<lambda>r. \<not> loose_eq_str (md_id r) (map_id mp)) mapMarkers @
     [(map_toProperties mp)
        \<lparr>md_files := map mf_file (filter (\<lambda>f. includes_id (mf_maps f) (map_id mp)) mapFiles)\<rparr>]"

text \<open>
  The two filters. \<open>now\<close> is the value of \<open>Date.now()\<close> during the save. The default
  \<open>lastAccessed = Date.now()\<close> stands in for a missing timestamp only; \<open>null\<close> counts
  as 0 in the subtraction.
\<close>

definition has_data :: "'o savedMapData \<Rightarrow> bool" where
  "has_data r = (length (md_markers r) > 0 \<or> length (md_overlays r) > 0)"

definition since_access :: "int \<Rightarrow> int nullable \<Rightarrow> int" where
  "since_access now la = (case la of Undefined \<Rightarrow> now - now | Null \<Rightarrow> now - 0 | Val t \<Rightarrow> now - t)"

definition still_wanted :: "int \<Rightarrow> 'o savedMapData \<Rightarrow> bool" where
  "still_wanted now r =
     (\<not> truthy_str (md_id r) \<or> length (md_files r) \<noteq> 0
      \<or> since_access now (md_lastAccessed r) \<le> 604800000)"

text \<open>\<open>saveSettings\<close>: the list \<open>this.data.mapMarkers\<close> that is written out.\<close>

definition saveSettings ::
  "int \<Rightarrow> 'o mapInterface list \<Rightarrow> mapFile list \<Rightarrow> 'o savedMapData list \<Rightarrow> 'o savedMapData list" where
  "saveSettings now maps mapFiles mapMarkers =
     filter (still_wanted now) (filter has_data (foldl (push_map mapFiles) mapMarkers maps))"

section \<open>utils: values of untyped data\<close>

text \<open>
  Data that comes out of the YAML parser, of \<open>JSON.parse\<close> or of a document's
  frontmatter: plain values, arrays and objects. The entries of an object stand in the
  order in which the language enumerates them.
\<close>

datatype jsvalue =
  JUndefined
| JNull
| JBool bool
| JNum number
| JStr string
| JArr "jsvalue list"
| JObj "(string \<times> jsvalue) list"

text \<open>\<open>ToBoolean\<close>.\<close>

fun truthy :: "jsvalue \<Rightarrow> bool" where
  "truthy JUndefined = False"
| "truthy JNull = False"
| "truthy (JBool b) = b"
| "truthy (JNum n) = (n \<noteq> NaN \<and> n \<noteq> Fin 0)"
| "truthy (JStr s) = (s \<noteq> [])"
| "truthy (JArr _) = True"
| "truthy (JObj _) = True"

fun of_nullable_str :: "string nullable \<Rightarrow> jsvalue" where
  "of_nullable_str Undefined = JUndefined"
| "of_nullable_str Null = JNull"
| "of_nullable_str (Val s) = JStr s"

fun of_nullable_num :: "number nullable \<Rightarrow> jsvalue" where
  "of_nullable_num Undefined = JUndefined"
| "of_nullable_num Null = JNull"
| "of_nullable_num (Val n) = JNum n"

subsection \<open>Searching and cutting strings\<close>

text \<open>
  The first occurrence of \<open>pat\<close> in a string: the text before it and the text after it.
\<close>

fun breakOn :: "string \<Rightarrow> string \<Rightarrow> (string \<times> string) option" where
  "breakOn pat [] = (if pat = [] then Some ([], []) else None)"
| "breakOn pat (c # cs) =
     (if take (length pat) (c # cs) = pat then Some ([], drop (length pat) (c # cs))
      else (case breakOn pat cs of None \<Rightarrow> None | Some (a, b) \<Rightarrow> Some (c # a, b)))"

lemma breakOn_length:
  "breakOn pat s = Some (a, b) \<Longrightarrow> length a + length pat + length b = length s"
proof (induction s arbitrary: a)
  case Nil
  then show ?case by (simp split: if_splits)
next
  case (Cons c cs)
  show ?case
  proof (cases "take (length pat) (c # cs) = pat")
    case True
    then have "length (take (length pat) (c # cs)) = length pat" by simp
    then have "length pat \<le> length (c # cs)" by simp
    with True Cons.prems show ?thesis by auto
  next
    case False
    with Cons.prems obtain a' where "breakOn pat cs = Some (a', b)" "a = c # a'"
      by (auto split: option.splits)
    with Cons.IH[of a'] show ?thesis by simp
  qed
qed

text \<open>\<open>s.includes(pat)\<close>, and \<open>new RegExp(pat).test(s)\<close> for a pattern of plain characters.\<close>

definition str_includes :: "string \<Rightarrow> string \<Rightarrow> bool" where
  "str_includes s pat = (breakOn pat s \<noteq> None)"

text \<open>\<open>s.split(sep)\<close> for a string separator that is not empty.\<close>

function split_str :: "string \<Rightarrow> string \<Rightarrow> string list" where
  "split_str sep s =
     (if sep = [] then map (\<lambda>c. [c]) s
      else (case breakOn sep s of
              None \<Rightarrow> [s]
            | Some (a, b) \<Rightarrow> a # split_str sep b))"
  by pat_completeness auto
termination
proof (relation "measure (\<lambda>(sep, s). length s)")
  show "wf (measure (\<lambda>(sep, s). length s))" by simp
next
  fix sep s :: string and x2 a b
  assume "sep \<noteq> []" "breakOn sep s = Some x2" "(a, b) = x2"
  then have "length a + length sep + length b = length s"
    using breakOn_length[of sep s a b] by simp
  with \<open>sep \<noteq> []\<close> show "((sep, b), (sep, s)) \<in> measure (\<lambda>(sep, s). length s)"
    by (cases sep) auto
qed

declare split_str.simps [simp del]

text \<open>
  \<open>s.split(re)\<close> for a pattern \<open>lit\s?\<close>: the literal text \<open>lit\<close> (not empty), then
  one white-space character if there is one.
\<close>

function split_lit_ws :: "string \<Rightarrow> string \<Rightarrow> string list" where
  "split_lit_ws lit s =
     (if lit = [] then [s]
      else (case breakOn lit s of
              None \<Rightarrow> [s]
            | Some (a, b) \<Rightarrow>
                a # split_lit_ws lit (if b \<noteq> [] \<and> isSpace (hd b) then tl b else b)))"
  by pat_completeness auto
termination
proof (relation "measure (\<lambda>(lit, s). length s)")
  show "wf (measure (\<lambda>(lit, s). length s))" by simp
next
  fix lit s :: string and x2 a b
  assume "lit \<noteq> []" "breakOn lit s = Some x2" "(a, b) = x2"
  then have "length a + length lit + length b = length s"
    using breakOn_length[of lit s a b] by simp
  with \<open>lit \<noteq> []\<close>
  show "((lit, if b \<noteq> [] \<and> isSpace (hd b) then tl b else b), (lit, s)) \<in> measure (\<lambda>(lit, s). length s)"
    by (cases lit) auto
qed

declare split_lit_ws.simps [simp del]

text \<open>\<open>xs[i]\<close> on an array of strings: \<open>undefined\<close> past the end.\<close>

definition at_str :: "string list \<Rightarrow> nat \<Rightarrow> string nullable" where
  "at_str xs i = (if i < length xs then Val (xs ! i) else Undefined)"

text \<open>\<open>parseLink\<close>: every square bracket is removed.\<close>

definition parseLink :: "string \<Rightarrow> string" where
  "parseLink link = filter (\<lambda>c. c \<noteq> CHR ''['' \<and> c \<noteq> CHR '']'') link"

text \<open>
  \<^verbatim>\<open>/\[\[[\s\S]+\]\]/.test(link)\<close>: two opening brackets, at least one character,
  two closing brackets, anywhere in the text. The leftmost \<open>[[\<close> leaves the most room,
  so the test looks for \<open>]]\<close> from the second character after it.
\<close>

definition is_wikilink :: "string \<Rightarrow> bool" where
  "is_wikilink link =
     (case breakOn ''[['' link of
        None \<Rightarrow> False
      | Some (_, rest) \<Rightarrow> rest \<noteq> [] \<and> str_includes (tl rest) '']]'')"

subsection \<open>Number(text)\<close>

text \<open>
  The value of a digit in a radix up to 36, and of a digit string, most significant
  digit first; \<open>None\<close> for a character that is no digit of the radix or for no digits
  at all.
\<close>

definition digit_of :: "nat \<Rightarrow> char \<Rightarrow> nat option" where
  "digit_of radix c =
     (let n = of_char (lower_char c) :: nat;
          v = (if 48 \<le> n \<and> n \<le> 57 then n - 48 else if 97 \<le> n \<and> n \<le> 122 then n - 87 else 36)
      in if of_char c < (128::nat) \<and> v < radix then Some v else None)"

fun radix_val_acc :: "nat \<Rightarrow> nat \<Rightarrow> string \<Rightarrow> nat option" where
  "radix_val_acc radix acc [] = Some acc"
| "radix_val_acc radix acc (c # cs) =
     (case digit_of radix c of
        None \<Rightarrow> None
      | Some v \<Rightarrow> radix_val_acc radix (acc * radix + v) cs)"

definition radix_val :: "nat \<Rightarrow> string \<Rightarrow> nat option" where
  "radix_val radix s = (if s = [] then None else radix_val_acc radix 0 s)"

definition is_digit :: "char \<Rightarrow> bool" where
  "is_digit c = (digit_of 10 c \<noteq> None)"

text \<open>\<open>n * 10^k\<close> for an integer exponent.\<close>

definition scale10 :: "nat \<Rightarrow> int \<Rightarrow> real" where
  "scale10 n k = (if k \<ge> 0 then of_nat n * 10 ^ nat k else of_nat n / 10 ^ nat (- k))"

text \<open>
  The exponent part of a decimal literal: \<open>e\<close> or \<open>E\<close>, an optional sign, digits; or
  nothing at all.
\<close>

definition exponent_part :: "string \<Rightarrow> int option" where
  "exponent_part s =
     (case s of
        [] \<Rightarrow> Some 0
      | c # r \<Rightarrow>
          if c = CHR ''e'' \<or> c = CHR ''E'' then
            (case r of
               [] \<Rightarrow> None
             | d # ds \<Rightarrow>
                 if d = CHR ''-'' then map_option (\<lambda>n. - int n) (radix_val 10 ds)
                 else if d = CHR ''+'' then map_option int (radix_val 10 ds)
                 else map_option int (radix_val 10 r))
          else None)"

text \<open>
  \<open>StrUnsignedDecimalLiteral\<close> without \<open>Infinity\<close>: digits, an optional point and
  fraction digits (digits on at least one side of the point), an optional exponent. The
  value is the exact decimal value.
\<close>

definition unsigned_decimal :: "string \<Rightarrow> real option" where
  "unsigned_decimal s =
     (let ip = takeWhile is_digit s;
          r1 = dropWhile is_digit s;
          dot = (r1 \<noteq> [] \<and> hd r1 = CHR ''.'');
          fp = (if dot then takeWhile is_digit (tl r1) else []);
          r2 = (if dot then dropWhile is_digit (tl r1) else r1)
      in if ip = [] \<and> fp = [] then None
         else (case (radix_val 10 (ip @ fp), exponent_part r2) of
                 (Some n, Some e) \<Rightarrow> Some (scale10 n (e - int (length fp)))
               | _ \<Rightarrow> None))"

definition unsigned_literal :: "string \<Rightarrow> number" where
  "unsigned_literal s =
     (if s = ''Infinity'' then PosInf
      else (case unsigned_decimal s of Some x \<Rightarrow> Fin x | None \<Rightarrow> NaN))"

fun negate :: "number \<Rightarrow> number" where
  "negate (Fin x) = Fin (- x)"
| "negate PosInf = NegInf"
| "negate NegInf = PosInf"
| "negate NaN = NaN"

text \<open>
  \<open>Number(s)\<close> for a string: white space around the literal is dropped; the empty
  text is 0; \<open>0x\<close>, \<open>0o\<close> and \<open>0b\<close> introduce an unsigned integer literal in radix
  16, 8 and 2; otherwise a decimal literal with an optional sign; anything else is NaN.
  Negative zero is not told apart from zero.
\<close>

definition Number_str :: "string \<Rightarrow> number" where
  "Number_str s =
     (let t = trim s
      in if t = [] then Fin 0
         else if take 2 t = ''0x'' \<or> take 2 t = ''0X'' then
           (case radix_val 16 (drop 2 t) of Some n \<Rightarrow> Fin (of_nat n) | None \<Rightarrow> NaN)
         else if take 2 t = ''0o'' \<or> take 2 t = ''0O'' then
           (case radix_val 8 (drop 2 t) of Some n \<Rightarrow> Fin (of_nat n) | None \<Rightarrow> NaN)
         else if take 2 t = ''0b'' \<or> take 2 t = ''0B'' then
           (case radix_val 2 (drop 2 t) of Some n \<Rightarrow> Fin (of_nat n) | None \<Rightarrow> NaN)
         else if hd t = CHR ''-'' then negate (unsigned_literal (tl t))
         else if hd t = CHR ''+'' then unsigned_literal (tl t)
         else unsigned_literal t)"

text \<open>\<open>Number(x)\<close> for a field that may be missing: \<open>Number(undefined)\<close> is NaN.\<close>

fun Number_field :: "string nullable \<Rightarrow> number" where
  "Number_field (Val s) = Number_str s"
| "Number_field Undefined = NaN"
| "Number_field Null = Fin 0"

section \<open>utils: getImmutableItems\<close>

subsection \<open>What the function reads from the application\<close>

text \<open>
  Files and folders of the vault, the index of the companion data-indexing plugin when
  it is installed, and the resolution of link paths. \<open>recurseChildren\<close> gives, for the
  path of a folder, the files and folders \<open>Vault.recurseChildren\<close> visits, in its order.
\<close>

record tfile =
  f_path :: string
  f_extension :: string
  f_basename :: string
  f_name :: string

datatype abstractFile = TFile tfile | TFolder string

record dataviewIndex =
  tags_getInverse :: "string \<Rightarrow> string list"
  links_invMap_get :: "string \<Rightarrow> string list option"
  links_map_get :: "string \<Rightarrow> string list option"

record app =
  listCommands :: "command list"
  getAbstractFileByPath :: "string \<Rightarrow> abstractFile option"
  recurseChildren :: "string \<Rightarrow> abstractFile list"
  dataview_index :: "dataviewIndex option"
  getFirstLinkpathDest :: "string \<Rightarrow> tfile option"

text \<open>
  The CSV library is a dependency: \<open>parseCSV\<close> is a parameter of the model, the rows of
  fields it returns as \<open>data\<close>.
\<close>

type_synonym csv_parser = "string \<Rightarrow> string list list"

subsection \<open>The state of one run\<close>

text \<open>
  The two result arrays, the index from documents to the group ids they produced, the
  notices shown so far, and the exception that ended the run, if one was raised. A marker
  tuple and an overlay tuple are arrays of values.
\<close>

record run =
  markersToReturn :: "jsvalue list list"
  overlaysToReturn :: "jsvalue list list"
  watchers :: "(tfile \<times> (string \<times> string) list) list"
  notices :: "string list"
  thrown :: "error option"

definition new_run :: run where
  "new_run = \<lparr>markersToReturn = [], overlaysToReturn = [], watchers = [], notices = [],
               thrown = None\<rparr>"

definition Notice :: "string \<Rightarrow> run \<Rightarrow> run" where
  "Notice msg st = st\<lparr>notices := notices st @ [msg]\<rparr>"

text \<open>A loop whose body may raise: once an exception is raised, nothing more runs.\<close>

definition for_each :: "('a \<Rightarrow> run \<Rightarrow> run) \<Rightarrow> 'a list \<Rightarrow> run \<Rightarrow> run" where
  "for_each body xs st = foldl (\<lambda>s x. if thrown s = None then body x s else s) st xs"

subsection \<open>Rows of the source block\<close>

text \<open>
  The checks both loops make on a row: the default type, the two coordinates, the zoom
  bounds, the link and the layer.
\<close>

definition row_type :: "string nullable \<Rightarrow> string" where
  "row_type t =
     (case t of
        Val s \<Rightarrow> if s = [] \<or> length s = 0 \<or> s = ''undefined'' then ''default'' else s
      | _ \<Rightarrow> ''default'')"

text \<open>\<open>!x || !x.length || isNaN(Number(x))\<close>.\<close>

definition bad_coordinate :: "string nullable \<Rightarrow> bool" where
  "bad_coordinate x =
     (case x of
        Val s \<Rightarrow> s = [] \<or> length s = 0 \<or> isNaN (Number_str s)
      | _ \<Rightarrow> True)"

definition row_zoom :: "string nullable \<Rightarrow> jsvalue" where
  "row_zoom z = (if isNaN (Number_field z) then JUndefined else JNum (Number_field z))"

definition row_link :: "string nullable \<Rightarrow> string nullable" where
  "row_link l =
     (case l of
        Val s \<Rightarrow>
          if s = [] \<or> length s = 0 \<or> s = ''undefined'' then Undefined
          else if is_wikilink s then Val (parseLink s)
          else Val s
      | _ \<Rightarrow> Undefined)"

definition row_layer :: "string nullable \<Rightarrow> string nullable" where
  "row_layer l =
     (case l of
        Val s \<Rightarrow> if s = [] \<or> length s = 0 \<or> s = ''undefined'' then Undefined else Val s
      | _ \<Rightarrow> Undefined)"

text \<open>The body of the loop over \<open>markers\<close>.\<close>

definition marker_row :: "csv_parser \<Rightarrow> string \<Rightarrow> run \<Rightarrow> run" where
  "marker_row parseCSV marker st =
     (let data = parseCSV marker
      in if length data = 0 then Notice ''No data'' st
         else
           (let r = data ! 0;
                type = row_type (at_str r 0)
            in if bad_coordinate (at_str r 1) then Notice ''Could not parse latitude'' st
               else if bad_coordinate (at_str r 2) then Notice ''Could not parse longitude'' st
               else
                 st\<lparr>markersToReturn := markersToReturn st @
                     [[JStr type, JNum (Number_field (at_str r 1)), JNum (Number_field (at_str r 2)),
                       of_nullable_str (row_link (at_str r 3)),
                       of_nullable_str (row_layer (at_str r 4)),
                       JBool False, JNull, JNull,
                       row_zoom (at_str r 5), row_zoom (at_str r 6)]]\<rparr>))"

text \<open>
  \<^verbatim>\<open>commands.find(({ name: n, id }) => n == link || id == link)\<close>: the first command
  whose name or id equals the link. A missing link equals neither.
\<close>

definition find_command :: "command list \<Rightarrow> string nullable \<Rightarrow> command option" where
  "find_command cmds link =
     find (\<lambda>c. Val (cmd_name c) = link \<or> Val (cmd_id c) = link) cmds"

text \<open>
  The body of the loop over \<open>commandMarkers\<close>. Taking \<open>id\<close> out of the result of
  \<open>find\<close> raises a TypeError when no command was found.
\<close>

definition command_row :: "csv_parser \<Rightarrow> command list \<Rightarrow> string \<Rightarrow> run \<Rightarrow> run" where
  "command_row parseCSV cmds marker st =
     (let data = parseCSV marker
      in if length data = 0 then Notice ''No data'' st
         else
           (let r = data ! 0;
                type = row_type (at_str r 0)
            in if bad_coordinate (at_str r 1) then Notice ''Could not parse latitude'' st
               else if bad_coordinate (at_str r 2) then Notice ''Could not parse longitude'' st
               else
                 (case find_command cmds (row_link (at_str r 3)) of
                    None \<Rightarrow> st\<lparr>thrown := Some TypeError\<rparr>
                  | Some c \<Rightarrow>
                      st\<lparr>markersToReturn := markersToReturn st @
                          [[JStr type, JNum (Number_field (at_str r 1)),
                            JNum (Number_field (at_str r 2)),
                            JStr (cmd_id c),
                            of_nullable_str (row_layer (at_str r 4)),
                            JBool True, JNull, JNull,
                            row_zoom (at_str r 5), row_zoom (at_str r 6)]]\<rparr>)))"

subsection \<open>Documents named by files, folders, tags and links\<close>

text \<open>A \<open>Set\<close> of strings keeps the order of insertion.\<close>

definition set_add :: "string list \<Rightarrow> string \<Rightarrow> string list" where
  "set_add xs x = (if x \<in> set xs then xs else xs @ [x])"

definition new_Set :: "string list \<Rightarrow> string list" where
  "new_Set xs = foldl set_add [] xs"

text \<open>The loop over \<open>markerFolders\<close>.\<close>

definition add_folder :: "app \<Rightarrow> string list \<Rightarrow> string \<Rightarrow> string list" where
  "add_folder a files path =
     (case getAbstractFileByPath a path of
        None \<Rightarrow> files
      | Some (TFile _) \<Rightarrow> set_add files path
      | Some (TFolder p) \<Rightarrow>
          foldl (\<lambda>fs node. case node of TFile f \<Rightarrow> set_add fs (f_path f) | TFolder _ \<Rightarrow> fs)
            files (recurseChildren a p))"

text \<open>
  One group of tags: the documents that carry every tag of the group. An empty tag is
  dropped, a tag without \<open>#\<close> gets one in front, and the index is asked for the trimmed
  tag. \<open>reduce\<close> without a start value folds from the first set.
\<close>

definition tag_sets :: "dataviewIndex \<Rightarrow> string list \<Rightarrow> string list list" where
  "tag_sets cache tags =
     map (\<lambda>tag. tags_getInverse cache
                  (trim (if \<not> str_includes tag ''#'' then CHR ''#'' # tag else tag)))
         (filter (\<lambda>tag. tag \<noteq> []) tags)"

definition intersect_all :: "string list list \<Rightarrow> string list" where
  "intersect_all sets =
     foldl (\<lambda>a b. new_Set (filter (\<lambda>x. x \<in> set (new_Set a)) b)) (hd sets) (tl sets)"

definition add_tag_group :: "dataviewIndex \<Rightarrow> string list \<Rightarrow> string list \<Rightarrow> string list" where
  "add_tag_group cache tagSet tags =
     (let filtered = tag_sets cache tags
      in if length filtered = 0 then tagSet
         else foldl set_add tagSet (intersect_all filtered))"

definition filter_by_tags :: "dataviewIndex \<Rightarrow> string list list \<Rightarrow> string list \<Rightarrow> string list" where
  "filter_by_tags cache markerTags files =
     (if length markerTags > 0 then
        (let tagSet = foldl (add_tag_group cache) [] markerTags
         in if length files \<noteq> 0 then new_Set (filter (\<lambda>f. f \<in> set tagSet) files)
            else foldl set_add files tagSet)
      else files)"

text \<open>The loops over \<open>linksTo\<close> and \<open>linksFrom\<close>, with the map of the index to ask.\<close>

definition add_links ::
  "app \<Rightarrow> (string \<Rightarrow> string list option) \<Rightarrow> string list \<Rightarrow> string \<Rightarrow> string list" where
  "add_links a lookup files link =
     (case getFirstLinkpathDest a (parseLink link) of
        None \<Rightarrow> files
      | Some file \<Rightarrow>
          (case lookup (f_path file) of
             None \<Rightarrow> files
           | Some links \<Rightarrow> foldl set_add files links))"

text \<open>
  The notice for filters that need the index when it is missing. The separator of the
  outer \<open>reduce\<close> compares the position with the length of the text the inner one built.
\<close>

definition reduce_join :: "(nat \<Rightarrow> string) \<Rightarrow> string list \<Rightarrow> string" where
  "reduce_join sep xs =
     fst (foldl (\<lambda>(res, i) k. (res @ sep i @ k, Suc i)) (hd xs, 1) (tl xs))"

definition missing_index_message :: "string list \<Rightarrow> string" where
  "missing_index_message errors =
     (let inner = reduce_join (\<lambda>i. if i = length errors - 1 then '' and '' else '', '') errors;
          outer = reduce_join (\<lambda>i. if int i = int (length inner) - 1 then '' and '' else '', '')
                    errors
      in ''The `'' @ outer @ ''` field'' @ (if length errors > 2 then ''s'' else [])
         @ '' can only be used with the Dataview plugin installed.'')"

definition missing_index_errors :: "string list list \<Rightarrow> string list \<Rightarrow> string list \<Rightarrow> string list" where
  "missing_index_errors markerTags linksTo linksFrom =
     (if length markerTags \<noteq> 0 then [''markerTags''] else [])
     @ (if length linksTo \<noteq> 0 then [''linksTo''] else [])
     @ (if length linksFrom \<noteq> 0 then [''linksFrom''] else [])"

text \<open>
  The condition that opens the block:
  \<^verbatim>\<open>markerFiles.length || markerFolders.length || markerTags.length ||
  linksTo.length || linksFrom\<close>.
  Its last operand is the array \<open>linksFrom\<close> itself, and an array is truthy whatever it
  holds.
\<close>

definition array_truthy :: "'a list \<Rightarrow> bool" where
  "array_truthy xs = True"

definition cross_document_condition ::
  "string list \<Rightarrow> string list \<Rightarrow> string list list \<Rightarrow> string list \<Rightarrow> string list \<Rightarrow> bool" where
  "cross_document_condition markerFiles markerFolders markerTags linksTo linksFrom =
     (0 < length markerFiles \<or> 0 < length markerFolders \<or> 0 < length markerTags
      \<or> 0 < length linksTo \<or> array_truthy linksFrom)"

text \<open>
  The block itself: the set of candidate paths, then one step per path. The step (lines
  508 to 701: the document's frontmatter turned into marker and overlay tuples) is the
  parameter \<open>perDocument\<close>.
\<close>

definition candidate_files ::
  "app \<Rightarrow> string list \<Rightarrow> string list \<Rightarrow> string list list \<Rightarrow> string list \<Rightarrow> string list
     \<Rightarrow> string list" where
  "candidate_files a markerFiles markerFolders markerTags linksTo linksFrom =
     (let files = foldl (add_folder a) (new_Set markerFiles) markerFolders
      in case dataview_index a of
           Some cache \<Rightarrow>
             foldl (add_links a (links_map_get cache))
               (foldl (add_links a (links_invMap_get cache))
                  (filter_by_tags cache markerTags files) linksTo)
               linksFrom
         | None \<Rightarrow> files)"

definition cross_document ::
  "app \<Rightarrow> (string \<Rightarrow> run \<Rightarrow> run) \<Rightarrow> string list \<Rightarrow> string list \<Rightarrow> string list list
     \<Rightarrow> string list \<Rightarrow> string list \<Rightarrow> run \<Rightarrow> run" where
  "cross_document a perDocument markerFiles markerFolders markerTags linksTo linksFrom st =
     (let files = candidate_files a markerFiles markerFolders markerTags linksTo linksFrom;
          errors = missing_index_errors markerTags linksTo linksFrom;
          st1 = (if dataview_index a = None \<and> length errors \<noteq> 0
                 then Notice (missing_index_message errors) st else st)
      in for_each perDocument files st1)"

subsection \<open>The function\<close>

text \<open>
  The body runs inside \<^verbatim>\<open>new Promise(async (resolve, reject) => { ... })\<close>. When it
  reaches its end it resolves the promise with the two arrays and the index. An exception
  raised in the body rejects the promise of the \<open>async\<close> function, which nobody holds:
  the promise handed to the caller is then never settled.
\<close>

record items =
  i_markers :: "jsvalue list list"
  i_overlays :: "jsvalue list list"
  i_files :: "(tfile \<times> (string \<times> string) list) list"

datatype 'a promise = Fulfilled 'a | Rejected error | Pending

definition run_body ::
  "csv_parser \<Rightarrow> app \<Rightarrow> (string \<Rightarrow> run \<Rightarrow> run) \<Rightarrow> string list \<Rightarrow> string list
     \<Rightarrow> string list list \<Rightarrow> string list \<Rightarrow> string list \<Rightarrow> string list \<Rightarrow> string list \<Rightarrow> run" where
  "run_body parseCSV a perDocument markers commandMarkers markerTags markerFiles markerFolders
      linksTo linksFrom =
     (let st1 = for_each (marker_row parseCSV) markers new_run;
          st2 = for_each (command_row parseCSV (listCommands a)) commandMarkers st1
      in if thrown st2 = None
            \<and> cross_document_condition markerFiles markerFolders markerTags linksTo linksFrom
         then cross_document a perDocument markerFiles markerFolders markerTags linksTo linksFrom st2
         else st2)"

definition getImmutableItems ::
  "csv_parser \<Rightarrow> app \<Rightarrow> (string \<Rightarrow> run \<Rightarrow> run) \<Rightarrow> string list \<Rightarrow> string list
     \<Rightarrow> string list list \<Rightarrow> string list \<Rightarrow> string list \<Rightarrow> string list \<Rightarrow> string list
     \<Rightarrow> items promise" where
  "getImmutableItems parseCSV a perDocument markers commandMarkers markerTags markerFiles
      markerFolders linksTo linksFrom =
     (let st = run_body parseCSV a perDocument markers commandMarkers markerTags markerFiles
                 markerFolders linksTo linksFrom
      in case thrown st of
           None \<Rightarrow> Fulfilled \<lparr>i_markers = markersToReturn st, i_overlays = overlaysToReturn st,
                              i_files = watchers st\<rparr>
         | Some e \<Rightarrow> Pending)"

subsection \<open>Sample surroundings\<close>

text \<open>
  What the CSV library returns for one line of text without quotes or line breaks: a
  single row, the fields between the commas; no row at all for the empty text.
\<close>

definition csv_one_line :: csv_parser where
  "csv_one_line s = (if s = [] then [] else [split_str '','' s])"

text \<open>
  An application with one registered command, an empty vault and no index plugin.
\<close>

definition sample_app :: app where
  "sample_app =
     \<lparr>listCommands = [\<lparr>cmd_id = ''app:open-help'', cmd_name = ''Open help''\<rparr>],
      getAbstractFileByPath = (\<lambda>p. None), recurseChildren = (\<lambda>p. []),
      dataview_index = None, getFirstLinkpathDest = (\<lambda>p. None)\<rparr>"

section \<open>utils: getParamsFromSource\<close>

subsection \<open>Objects\<close>

text \<open>
  The language enumerates the keys of an object with the array indices first, in
  ascending order, then the other keys in the order in which they were created. An array
  index is the decimal text of an integer below \<open>2^32 - 1\<close>, without leading zeros.
\<close>

definition array_index :: "string \<Rightarrow> nat option" where
  "array_index k =
     (if k = [] \<or> (hd k = CHR ''0'' \<and> k \<noteq> ''0'') then None
      else (case radix_val 10 k of
              None \<Rightarrow> None
            | Some n \<Rightarrow> if int n < 4294967295 then Some n else None))"

fun insert_index :: "nat \<Rightarrow> string \<Rightarrow> jsvalue \<Rightarrow> (string \<times> jsvalue) list \<Rightarrow> (string \<times> jsvalue) list" where
  "insert_index n k v [] = [(k, v)]"
| "insert_index n k v ((k', v') # es) =
     (case array_index k' of
        None \<Rightarrow> (k, v) # (k', v') # es
      | Some n' \<Rightarrow> if n < n' then (k, v) # (k', v') # es else (k', v') # insert_index n k v es)"

fun replace_value :: "string \<Rightarrow> jsvalue \<Rightarrow> (string \<times> jsvalue) list \<Rightarrow> (string \<times> jsvalue) list" where
  "replace_value k v [] = []"
| "replace_value k v ((k', v') # es) =
     (if k' = k then (k, v) # es else (k', v') # replace_value k v es)"

text \<open>\<open>obj[k] = v\<close> on a plain object, and \<open>obj[k]\<close>.\<close>

definition obj_set :: "(string \<times> jsvalue) list \<Rightarrow> string \<Rightarrow> jsvalue \<Rightarrow> (string \<times> jsvalue) list" where
  "obj_set es k v =
     (if k \<in> fst ` set es then replace_value k v es
      else (case array_index k of None \<Rightarrow> es @ [(k, v)] | Some n \<Rightarrow> insert_index n k v es))"

definition obj_get :: "(string \<times> jsvalue) list \<Rightarrow> string \<Rightarrow> jsvalue" where
  "obj_get es k = (case map_of es k of None \<Rightarrow> JUndefined | Some v \<Rightarrow> v)"

text \<open>
  \<open>Object.fromEntries\<close> on arrays of strings: the first string of an entry is the key,
  the second the value (\<open>undefined\<close> when there is none).
\<close>

definition fromEntries :: "string list list \<Rightarrow> jsvalue" where
  "fromEntries entries =
     JObj (foldl (\<lambda>es e. obj_set es (template_str (at_str e 0)) (of_nullable_str (at_str e 1)))
             [] entries)"

subsection \<open>JSON.stringify\<close>

text \<open>
  The text of a finite number: its sign, the digits of its integer part and, after a
  point, the digits of its fraction. The language prints very large and very small
  numbers with an exponent; either text reads back as the same number, and the text of a
  number is never looked at otherwise.
\<close>

fun fraction_digits :: "nat \<Rightarrow> real \<Rightarrow> string" where
  "fraction_digits 0 x = []"
| "fraction_digits (Suc n) x =
     (if x = 0 then []
      else digit_char (nat \<lfloor>10 * x\<rfloor>) # fraction_digits n (10 * x - of_int \<lfloor>10 * x\<rfloor>))"

definition number_text :: "real \<Rightarrow> string" where
  "number_text x =
     (let a = \<bar>x\<bar>; f = a - of_int \<lfloor>a\<rfloor>
      in (if x < 0 then ''-'' else []) @ digits_radix 10 (nat \<lfloor>a\<rfloor>)
         @ (if f = 0 then [] else CHR ''.'' # fraction_digits 1100 f))"

text \<open>\<open>QuoteJSONString\<close>.\<close>

definition hex2 :: "nat \<Rightarrow> string" where
  "hex2 n = [digit_char (n div 16), digit_char (n mod 16)]"

definition json_escape :: "char \<Rightarrow> string" where
  "json_escape c =
     (let n = of_char c :: nat
      in if c = CHR 0x22 then [CHR 0x5C, CHR 0x22]
         else if c = CHR 0x5C then [CHR 0x5C, CHR 0x5C]
         else if n = 8 then [CHR 0x5C, CHR ''b'']
         else if n = 12 then [CHR 0x5C, CHR ''f'']
         else if n = 10 then [CHR 0x5C, CHR ''n'']
         else if n = 13 then [CHR 0x5C, CHR ''r'']
         else if n = 9 then [CHR 0x5C, CHR ''t'']
         else if n < 32 then [CHR 0x5C, CHR ''u'', CHR ''0'', CHR ''0''] @ hex2 n
         else [c])"

definition json_quote :: "string \<Rightarrow> string" where
  "json_quote s = CHR 0x22 # concat (map json_escape s) @ [CHR 0x22]"

fun join :: "string \<Rightarrow> string list \<Rightarrow> string" where
  "join sep [] = []"
| "join sep [x] = x"
| "join sep (x # y # ys) = x @ sep @ join sep (y # ys)"

text \<open>
  \<open>JSON.stringify(v)\<close>: \<open>None\<close> is the result \<open>undefined\<close>. In an array a value
  without text is written \<open>null\<close>; in an object its entry is left out.
\<close>

fun JSON_stringify :: "jsvalue \<Rightarrow> string option" where
  "JSON_stringify JUndefined = None"
| "JSON_stringify JNull = Some ''null''"
| "JSON_stringify (JBool b) = Some (if b then ''true'' else ''false'')"
| "JSON_stringify (JNum n) = Some (case n of Fin x \<Rightarrow> number_text x | _ \<Rightarrow> ''null'')"
| "JSON_stringify (JStr s) = Some (json_quote s)"
| "JSON_stringify (JArr xs) =
     Some (''['' @ join '','' (map (\<lambda>x. case JSON_stringify x of None \<Rightarrow> ''null'' | Some t \<Rightarrow> t) xs)
           @ '']'')"
| "JSON_stringify (JObj es) =
     Some (''{'' @ join '',''
             (concat (map (\<lambda>e. case JSON_stringify (snd e) of
                                None \<Rightarrow> []
                              | Some t \<Rightarrow> [json_quote (fst e) @ '':'' @ t]) es))
           @ ''}'')"

subsection \<open>JSON.parse\<close>

datatype jtoken =
  TLBrace | TRBrace | TLBrack | TRBrack | TColon | TComma
| TString string | TNumber real | TTrue | TFalse | TNull

text \<open>
  A number of JSON: an optional minus, an integer part without leading zeros, an
  optional fraction with at least one digit, an optional exponent.
\<close>

definition json_number :: "string \<Rightarrow> real option" where
  "json_number s =
     (let neg = (s \<noteq> [] \<and> hd s = CHR ''-'');
          u = (if neg then tl s else s);
          ip = takeWhile is_digit u;
          r1 = dropWhile is_digit u;
          dot = (r1 \<noteq> [] \<and> hd r1 = CHR ''.'');
          fp = (if dot then takeWhile is_digit (tl r1) else []);
          r2 = (if dot then dropWhile is_digit (tl r1) else r1)
      in if ip = [] \<or> (hd ip = CHR ''0'' \<and> ip \<noteq> ''0'') \<or> (dot \<and> fp = []) then None
         else (case (radix_val 10 (ip @ fp), exponent_part r2) of
                 (Some n, Some e) \<Rightarrow>
                   Some ((if neg then - 1 else 1) * scale10 n (e - int (length fp)))
               | _ \<Rightarrow> None))"

text \<open>
  The states of the tokenizer: between tokens; inside a string (the characters read so
  far, last first); after a backslash; inside a \<open>\u\<close> escape (the hexadecimal digits
  read so far); inside a number; inside a word.
\<close>

datatype lexmode =
  LStart
| LStr string
| LEsc string
| LUni string string
| LNum string
| LWord string

datatype lexresult = Tokens "jtoken list" | LexError | LexOutside

fun lex_cons :: "jtoken \<Rightarrow> lexresult \<Rightarrow> lexresult" where
  "lex_cons t (Tokens ts) = Tokens (t # ts)"
| "lex_cons t r = r"

definition word_token :: "string \<Rightarrow> jtoken option" where
  "word_token w =
     (if w = ''true'' then Some TTrue else if w = ''false'' then Some TFalse
      else if w = ''null'' then Some TNull else None)"

definition json_ws :: "char \<Rightarrow> bool" where
  "json_ws c = (of_char c \<in> {9::nat, 10, 13, 32})"

definition number_char :: "char \<Rightarrow> bool" where
  "number_char c = (is_digit c \<or> c \<in> set ''+-.eE'')"

definition word_char :: "char \<Rightarrow> bool" where
  "word_char c = (let n = of_char c :: nat in 97 \<le> n \<and> n \<le> 122)"

definition simple_escape :: "char \<Rightarrow> char option" where
  "simple_escape c =
     (if c = CHR 0x22 then Some (CHR 0x22)
      else if c = CHR 0x5C then Some (CHR 0x5C)
      else if c = CHR ''/'' then Some (CHR ''/'')
      else if c = CHR ''b'' then Some (CHR 0x08)
      else if c = CHR ''f'' then Some (CHR 0x0C)
      else if c = CHR ''n'' then Some (CHR 0x0A)
      else if c = CHR ''r'' then Some (CHR 0x0D)
      else if c = CHR ''t'' then Some (CHR 0x09)
      else None)"

text \<open>
  The end of a number or of a word: its token, then the rest of the tokens. A \<open>\u\<close>
  escape for a code unit from 256 on leaves the alphabet of the model.
\<close>

definition end_number :: "string \<Rightarrow> lexresult \<Rightarrow> lexresult" where
  "end_number acc rest =
     (case json_number (rev acc) of None \<Rightarrow> LexError | Some x \<Rightarrow> lex_cons (TNumber x) rest)"

definition end_word :: "string \<Rightarrow> lexresult \<Rightarrow> lexresult" where
  "end_word acc rest =
     (case word_token (rev acc) of None \<Rightarrow> LexError | Some t \<Rightarrow> lex_cons t rest)"

fun lex_start :: "char \<Rightarrow> (lexmode + jtoken) option" where
  "lex_start c =
     (if c = CHR ''{'' then Some (Inr TLBrace)
      else if c = CHR ''}'' then Some (Inr TRBrace)
      else if c = CHR ''['' then Some (Inr TLBrack)
      else if c = CHR '']'' then Some (Inr TRBrack)
      else if c = CHR '':'' then Some (Inr TColon)
      else if c = CHR '','' then Some (Inr TComma)
      else if c = CHR 0x22 then Some (Inl (LStr []))
      else if c = CHR ''-'' \<or> is_digit c then Some (Inl (LNum [c]))
      else if word_char c then Some (Inl (LWord [c]))
      else if json_ws c then Some (Inl LStart)
      else None)"

fun lex :: "lexmode \<Rightarrow> string \<Rightarrow> lexresult" where
  "lex LStart [] = Tokens []"
| "lex (LStr acc) [] = LexError"
| "lex (LEsc acc) [] = LexError"
| "lex (LUni acc ds) [] = LexError"
| "lex (LNum acc) [] = end_number acc (Tokens [])"
| "lex (LWord acc) [] = end_word acc (Tokens [])"
| "lex LStart (c # cs) =
     (case lex_start c of
        None \<Rightarrow> LexError
      | Some (Inr t) \<Rightarrow> lex_cons t (lex LStart cs)
      | Some (Inl m) \<Rightarrow> lex m cs)"
| "lex (LStr acc) (c # cs) =
     (if c = CHR 0x22 then lex_cons (TString (rev acc)) (lex LStart cs)
      else if c = CHR 0x5C then lex (LEsc acc) cs
      else if of_char c < (32::nat) then LexError
      else lex (LStr (c # acc)) cs)"
| "lex (LEsc acc) (c # cs) =
     (if c = CHR ''u'' then lex (LUni acc []) cs
      else (case simple_escape c of
              None \<Rightarrow> LexError
            | Some d \<Rightarrow> lex (LStr (d # acc)) cs))"
| "lex (LUni acc ds) (c # cs) =
     (case digit_of 16 c of
        None \<Rightarrow> LexError
      | Some _ \<Rightarrow>
          if length ds < 3 then lex (LUni acc (ds @ [c])) cs
          else (case radix_val 16 (ds @ [c]) of
                  None \<Rightarrow> LexError
                | Some n \<Rightarrow> if n < 256 then lex (LStr (char_of n # acc)) cs else LexOutside))"
| "lex (LNum acc) (c # cs) =
     (if number_char c then lex (LNum (c # acc)) cs
      else end_number acc
             (case lex_start c of
                None \<Rightarrow> LexError
              | Some (Inr t) \<Rightarrow> lex_cons t (lex LStart cs)
              | Some (Inl m) \<Rightarrow> lex m cs))"
| "lex (LWord acc) (c # cs) =
     (if word_char c then lex (LWord (c # acc)) cs
      else end_word acc
             (case lex_start c of
                None \<Rightarrow> LexError
              | Some (Inr t) \<Rightarrow> lex_cons t (lex LStart cs)
              | Some (Inl m) \<Rightarrow> lex m cs))"

text \<open>
  The parser reads the tokens with a stack of the arrays and objects that are open: for
  an array its items so far (last first), for an object its entries so far and the key
  that waits for its value. The states say what may come next.
\<close>

datatype frame = FArr "jsvalue list" | FObj "(string \<times> jsvalue) list" string

datatype pstate =
  PValue
| PArrStart
| PObjStart
| PKey
| PColon string
| PAfter
| PDone jsvalue

text \<open>A value is complete: it is the result, or it goes into the innermost open container.\<close>

fun close_value :: "jsvalue \<Rightarrow> frame list \<Rightarrow> pstate \<times> frame list" where
  "close_value v [] = (PDone v, [])"
| "close_value v (FArr items # fs) = (PAfter, FArr (v # items) # fs)"
| "close_value v (FObj es k # fs) = (PAfter, FObj (obj_set es k v) k # fs)"

fun scalar_token :: "jtoken \<Rightarrow> jsvalue option" where
  "scalar_token (TString s) = Some (JStr s)"
| "scalar_token (TNumber x) = Some (JNum (Fin x))"
| "scalar_token TTrue = Some (JBool True)"
| "scalar_token TFalse = Some (JBool False)"
| "scalar_token TNull = Some JNull"
| "scalar_token _ = None"

text \<open>One token: the next state and stack, or \<open>None\<close> for a syntax error.\<close>

definition start_value :: "jtoken \<Rightarrow> frame list \<Rightarrow> (pstate \<times> frame list) option" where
  "start_value t fs =
     (if t = TLBrack then Some (PArrStart, FArr [] # fs)
      else if t = TLBrace then Some (PObjStart, FObj [] [] # fs)
      else map_option (\<lambda>v. close_value v fs) (scalar_token t))"

fun parse_step :: "pstate \<Rightarrow> frame list \<Rightarrow> jtoken \<Rightarrow> (pstate \<times> frame list) option" where
  "parse_step PValue fs t = start_value t fs"
| "parse_step PArrStart fs t =
     (case (t, fs) of
        (TRBrack, FArr items # fs') \<Rightarrow> Some (close_value (JArr (rev items)) fs')
      | _ \<Rightarrow> start_value t fs)"
| "parse_step PObjStart fs t =
     (case (t, fs) of
        (TRBrace, FObj es _ # fs') \<Rightarrow> Some (close_value (JObj es) fs')
      | (TString k, _) \<Rightarrow> Some (PColon k, fs)
      | _ \<Rightarrow> None)"
| "parse_step PKey fs t = (case t of TString k \<Rightarrow> Some (PColon k, fs) | _ \<Rightarrow> None)"
| "parse_step (PColon k) fs t =
     (case (t, fs) of
        (TColon, FObj es _ # fs') \<Rightarrow> Some (PValue, FObj es k # fs')
      | _ \<Rightarrow> None)"
| "parse_step PAfter fs t =
     (case (t, fs) of
        (TComma, FArr items # fs') \<Rightarrow> Some (PValue, fs)
      | (TComma, FObj es k # fs') \<Rightarrow> Some (PKey, fs)
      | (TRBrack, FArr items # fs') \<Rightarrow> Some (close_value (JArr (rev items)) fs')
      | (TRBrace, FObj es k # fs') \<Rightarrow> Some (close_value (JObj es) fs')
      | _ \<Rightarrow> None)"
| "parse_step (PDone v) fs t = None"

fun parse_tokens :: "pstate \<Rightarrow> frame list \<Rightarrow> jtoken list \<Rightarrow> jsvalue option" where
  "parse_tokens st fs [] = (case st of PDone v \<Rightarrow> Some v | _ \<Rightarrow> None)"
| "parse_tokens st fs (t # ts) =
     (case parse_step st fs t of
        None \<Rightarrow> None
      | Some (st', fs') \<Rightarrow> parse_tokens st' fs' ts)"

text \<open>The exceptions of the model, and \<open>JSON.parse\<close>.\<close>

datatype exn = Raised error | OutsideModel

definition JSON_parse :: "string \<Rightarrow> exn + jsvalue" where
  "JSON_parse text =
     (case lex LStart text of
        LexError \<Rightarrow> Inl (Raised SyntaxError)
      | LexOutside \<Rightarrow> Inl OutsideModel
      | Tokens ts \<Rightarrow>
          (case parse_tokens PValue [] ts of
             None \<Rightarrow> Inl (Raised SyntaxError)
           | Some v \<Rightarrow> Inr v))"

subsection \<open>Link tokens and their placeholders\<close>

text \<open>
  \<^verbatim>\<open>source.match(/\[\[([^\[\]]*?)\]\]/g)\<close>: a token is \<open>[[\<close>, characters other than
  square brackets, \<open>]]\<close>. \<open>link_at\<close> reads a token at the very start of a text and
  returns it with what follows it.
\<close>

definition not_bracket :: "char \<Rightarrow> bool" where
  "not_bracket c = (c \<noteq> CHR ''['' \<and> c \<noteq> CHR '']'')"

definition link_at :: "string \<Rightarrow> (string \<times> string) option" where
  "link_at s =
     (if take 2 s = ''[['' then
        (let inner = takeWhile not_bracket (drop 2 s);
             r = dropWhile not_bracket (drop 2 s)
         in if take 2 r = '']]'' then Some (''[['' @ inner @ '']]'', drop 2 r) else None)
      else None)"

lemma link_at_shorter: "link_at s = Some (m, r) \<Longrightarrow> length r < length s"
proof -
  assume a: "link_at s = Some (m, r)"
  then have s: "take 2 s = ''[[''" and r: "r = drop 2 (dropWhile not_bracket (drop 2 s))"
    by (auto simp add: link_at_def Let_def split: if_splits)
  from s have "s \<noteq> []" by auto
  have "length r \<le> length (dropWhile not_bracket (drop 2 s))" unfolding r by simp
  also have "\<dots> \<le> length (drop 2 s)" by (rule length_dropWhile_le)
  also have "\<dots> < length s" using \<open>s \<noteq> []\<close> by simp
  finally show ?thesis .
qed

function match_links :: "string \<Rightarrow> string list" where
  "match_links s =
     (if s = [] then []
      else (case link_at s of
              Some (m, r) \<Rightarrow> m # match_links r
            | None \<Rightarrow> match_links (tl s)))"
  by pat_completeness auto
termination
  by (relation "measure length") (auto dest: link_at_shorter)

declare match_links.simps [simp del]

text \<open>\<open>links.indexOf(link)\<close> for a link of the list, and the placeholder of an index.\<close>

fun indexOf :: "string list \<Rightarrow> string \<Rightarrow> nat" where
  "indexOf [] x = 0"
| "indexOf (y # ys) x = (if y = x then 0 else Suc (indexOf ys x))"

definition placeholder :: "string list \<Rightarrow> string \<Rightarrow> string" where
  "placeholder links link = ''LEAFLET_INTERNAL_LINK_'' @ digits_radix 10 (indexOf links link)"

text \<open>
  \<open>s.replace(pat, repl)\<close> with a string pattern: the first occurrence of \<open>pat\<close> is
  replaced. In the replacement \<open>$$\<close> stands for a dollar sign, \<open>$&\<close> for the matched
  text, \<open>$`\<close> for the text before the match and \<open>$'\<close> for the text after it; any
  other dollar sign stands for itself.
\<close>

fun expand_replacement :: "string \<Rightarrow> string \<Rightarrow> string \<Rightarrow> string \<Rightarrow> string" where
  "expand_replacement m b a [] = []"
| "expand_replacement m b a [c] = [c]"
| "expand_replacement m b a (c # d # r) =
     (if c = CHR ''$'' \<and> d = CHR ''$'' then CHR ''$'' # expand_replacement m b a r
      else if c = CHR ''$'' \<and> d = CHR ''&'' then m @ expand_replacement m b a r
      else if c = CHR ''$'' \<and> d = CHR 0x60 then b @ expand_replacement m b a r
      else if c = CHR ''$'' \<and> d = CHR 0x27 then a @ expand_replacement m b a r
      else c # expand_replacement m b a (d # r))"

definition str_replace :: "string \<Rightarrow> string \<Rightarrow> string \<Rightarrow> string" where
  "str_replace s pat repl =
     (case breakOn pat s of
        None \<Rightarrow> s
      | Some (b, a) \<Rightarrow> b @ expand_replacement pat b a repl @ a)"

text \<open>The first loop: every link gives way to its placeholder.\<close>

definition hide_links :: "string list \<Rightarrow> string \<Rightarrow> string" where
  "hide_links links source =
     foldl (\<lambda>src link. str_replace src link (placeholder links link)) source links"

subsection \<open>Lines that start with a key\<close>

text \<open>
  The line terminators among the code units below 256, and the matches of
  \<^verbatim>\<open>/^\bkey\b:[\s\S]*?$/gm\<close> and of \<^verbatim>\<open>/^\bkey\b:\s?([\s\S]*?)$/gm\<close>
  (\<open>eat\<close> says whether the pattern has the \<open>\s?\<close>). A match starts at the start of
  a line with the key and a colon, takes one white-space character if the pattern asks
  for it and there is one (a line terminator is one), and runs to the end of the line it
  is in by then.
\<close>

definition isLT :: "char \<Rightarrow> bool" where
  "isLT c = (of_char c \<in> {10::nat, 13})"

definition key_at :: "bool \<Rightarrow> string \<Rightarrow> string \<Rightarrow> (string \<times> string) option" where
  "key_at eat key s =
     (if take (length key + 1) s = key @ '':'' then
        (let r0 = drop (length key + 1) s;
             sp = (if eat \<and> r0 \<noteq> [] \<and> isSpace (hd r0) then [hd r0] else []);
             r1 = drop (length sp) r0
         in Some (key @ '':'' @ sp @ takeWhile (\<lambda>c. \<not> isLT c) r1,
                  dropWhile (\<lambda>c. \<not> isLT c) r1))
      else None)"

lemma key_at_shorter: "key_at eat key s = Some (m, r) \<Longrightarrow> length r < length s"
proof -
  assume a: "key_at eat key s = Some (m, r)"
  then have p: "take (length key + 1) s = key @ '':''"
    by (auto simp add: key_at_def split: if_splits)
  then have "length (take (length key + 1) s) = length key + 1" by simp
  then have len: "length key + 1 \<le> length s" by simp
  from a p obtain k where r: "r = dropWhile (\<lambda>c. \<not> isLT c) (drop k (drop (length key + 1) s))"
    by (auto simp add: key_at_def Let_def)
  have "length r \<le> length (drop k (drop (length key + 1) s))"
    unfolding r by (rule length_dropWhile_le)
  also have "\<dots> \<le> length (drop (length key + 1) s)" by simp
  also have "\<dots> < length s" using len by simp
  finally show ?thesis .
qed

function key_lines :: "bool \<Rightarrow> string \<Rightarrow> bool \<Rightarrow> string \<Rightarrow> string list" where
  "key_lines eat key bol s =
     (case (if bol then key_at eat key s else None) of
        Some (m, r) \<Rightarrow> m # key_lines eat key (isLT (last m)) r
      | None \<Rightarrow> (case s of [] \<Rightarrow> [] | c # cs \<Rightarrow> key_lines eat key (isLT c) cs))"
  by pat_completeness auto
termination
  by (relation "measure (\<lambda>(eat, key, bol, s). length s)")
     (auto dest: key_at_shorter split: if_splits)

declare key_lines.simps [simp del]

subsection \<open>The parameter object\<close>

text \<open>
  What \<open>params\<close> holds after parsing: a plain object, an array (which can take named
  properties next to its elements), or a primitive value. The primitive values have no
  properties of the names read here, and cannot take any: the assignment
  \<open>params.layers = ...\<close> raises a TypeError in strict code (and leaves
  \<open>params.layers\<close> undefined otherwise, so that reading \<open>params.layers[0]\<close> raises it).
\<close>

datatype params =
  PObject "(string \<times> jsvalue) list"
| PArray "jsvalue list" "(string \<times> jsvalue) list"
| PPrimitive jsvalue

fun to_params :: "jsvalue \<Rightarrow> params" where
  "to_params (JObj es) = PObject es"
| "to_params (JArr xs) = PArray xs []"
| "to_params v = PPrimitive v"

fun get_prop :: "params \<Rightarrow> string \<Rightarrow> jsvalue" where
  "get_prop (PObject es) k = obj_get es k"
| "get_prop (PArray xs props) k = obj_get props k"
| "get_prop (PPrimitive v) k = JUndefined"

fun set_prop :: "params \<Rightarrow> string \<Rightarrow> jsvalue \<Rightarrow> exn + params" where
  "set_prop (PObject es) k v = Inr (PObject (obj_set es k v))"
| "set_prop (PArray xs props) k v = Inr (PArray xs (obj_set props k v))"
| "set_prop (PPrimitive p) k v = Inl (Raised TypeError)"

text \<open>\<open>arr[0]\<close>.\<close>

fun first_element :: "jsvalue \<Rightarrow> jsvalue" where
  "first_element (JArr (x # xs)) = x"
| "first_element _ = JUndefined"

subsection \<open>Restoring the links\<close>

text \<open>
  When there are links, the parameter object is written out as JSON, every placeholder
  in that text and in the source gives way to its link again, and the text is parsed
  back. \<open>JSON.parse\<close> is not guarded: its exception leaves the function.
\<close>

definition restore_links ::
  "string list \<Rightarrow> jsvalue \<Rightarrow> string \<Rightarrow> exn + (jsvalue \<times> string)" where
  "restore_links links params source =
     (if length links = 0 then Inr (params, source)
      else (case JSON_stringify params of
              None \<Rightarrow> Inl (Raised TypeError)
            | Some stringified \<Rightarrow>
                (let stringified' =
                       foldl (\<lambda>s link. str_replace s (placeholder links link) link) stringified links;
                     source' =
                       foldl (\<lambda>s link. str_replace s (placeholder links link) link) source links
                 in case JSON_parse stringified' of
                      Inl e \<Rightarrow> Inl e
                    | Inr v \<Rightarrow> Inr (v, source'))))"

subsection \<open>Images and layers\<close>

text \<open>
  \<^verbatim>\<open>if ((source.match(/^\bimage\b:[\s\S]*?$/gm) ?? []).length > 1)
    layers = (source.match(/^\bimage\b:([\s\S]*?)$/gm) || []).map((p) => p.split("image: ")[1]);\<close>
\<close>

definition image_layers :: "string \<Rightarrow> jsvalue option" where
  "image_layers source =
     (if length (key_lines False ''image'' True source) > 1
      then Some (JArr (map (\<lambda>p. of_nullable_str (at_str (split_str ''image: '' p) 1))
                        (key_lines False ''image'' True source)))
      else None)"

text \<open>
  \<^verbatim>\<open>if (typeof params.image === "string") image = [params.image];
  else if (params.image instanceof Array) image = [...params.image];
  else image = ["real"];\<close>
\<close>

fun image_list :: "jsvalue \<Rightarrow> jsvalue" where
  "image_list (JStr s) = JArr [JStr s]"
| "image_list (JArr xs) = JArr xs"
| "image_list _ = JArr [JStr ''real'']"

subsection \<open>Marker keys\<close>

definition marker_keys :: "string list" where
  "marker_keys = [''marker'', ''markerFile'', ''markerFolder'', ''markerTag'', ''commandMarker'',
                  ''geojson'', ''linksTo'', ''linksFrom'']"

text \<open>\<open>arr.flat(depth)\<close>.\<close>

fun flat :: "nat \<Rightarrow> jsvalue list \<Rightarrow> jsvalue list" where
  "flat 0 xs = xs"
| "flat (Suc d) xs = concat (map (\<lambda>x. case x of JArr ys \<Rightarrow> flat d ys | _ \<Rightarrow> [x]) xs)"

text \<open>
  The value of one line of a key written several times: what stands between the first
  and the second \<open>key:\<close> of the match, trimmed; for \<open>markerTag\<close> cut at the commas.
\<close>

definition line_value :: "string \<Rightarrow> string \<Rightarrow> jsvalue" where
  "line_value type p =
     (case at_str (split_lit_ws (type @ '':'') p) 1 of
        Val t \<Rightarrow>
          if type = ''markerTag'' then JArr (map JStr (split_lit_ws '','' (trim t)))
          else JStr (trim t)
      | _ \<Rightarrow> JUndefined)"

text \<open>The value of one key from the parsed parameters, when its lines are not used.\<close>

definition param_value :: "string \<Rightarrow> jsvalue \<Rightarrow> jsvalue" where
  "param_value type v =
     (case v of
        JArr xs \<Rightarrow>
          if type = ''markerTag'' then JArr (map (\<lambda>p. case p of JArr _ \<Rightarrow> p | _ \<Rightarrow> JArr [p]) xs)
          else if type = ''markerFile'' then JArr (flat 2 xs)
          else JArr xs
      | JUndefined \<Rightarrow> JArr []
      | _ \<Rightarrow> if type = ''markerTag'' then JArr [JArr [v]] else JArr [v])"

text \<open>One round of the loop over the keys: the entry of \<open>obj\<close> for the key.\<close>

definition key_value :: "string \<Rightarrow> params \<Rightarrow> string \<Rightarrow> jsvalue" where
  "key_value source params type =
     (if length (key_lines True type True source) > 1
      then JArr (map (line_value type) (key_lines True type True source))
      else param_value type (get_prop params type))"

text \<open>
  \<open>obj\<close>: empty arrays unless the source contains the name of one of the keys.
\<close>

definition marker_obj :: "string \<Rightarrow> params \<Rightarrow> (string \<times> jsvalue) list" where
  "marker_obj source params =
     (if \<exists>k \<in> set marker_keys. str_includes source k
      then map (\<lambda>type. (type, key_value source params type)) marker_keys
      else map (\<lambda>type. (type, JArr [])) marker_keys)"

text \<open>\<open>Object.assign(params, obj)\<close>.\<close>

fun assign :: "params \<Rightarrow> (string \<times> jsvalue) list \<Rightarrow> exn + params" where
  "assign p [] = Inr p"
| "assign p ((k, v) # es) = (case set_prop p k v of Inl e \<Rightarrow> Inl e | Inr p' \<Rightarrow> assign p' es)"

subsection \<open>The function\<close>

text \<open>
  The fallback of the \<open>catch\<close> block:
  \<^verbatim>\<open>Object.fromEntries(source.split("\n").map((l) => l.split(/:\s?/)))\<close>.
\<close>

definition parse_manually :: "string \<Rightarrow> jsvalue" where
  "parse_manually source = fromEntries (map (split_lit_ws '':'') (split_str [CHR 0x0A] source))"

text \<open>
  The part after the links are restored: layers and image, then the marker keys.
\<close>

definition finish_params :: "jsvalue \<Rightarrow> string \<Rightarrow> exn + params" where
  "finish_params v source =
     (let params = to_params v;
          layers = image_layers source;
          image = image_list (get_prop params ''image'')
      in case set_prop params ''layers'' (case layers of Some l \<Rightarrow> l | None \<Rightarrow> image) of
           Inl e \<Rightarrow> Inl e
         | Inr p1 \<Rightarrow>
             (case set_prop p1 ''image'' (first_element (get_prop p1 ''layers'')) of
                Inl e \<Rightarrow> Inl e
              | Inr p2 \<Rightarrow> assign p2 (marker_obj source p2)))"

text \<open>
  \<open>getParamsFromSource\<close>. The YAML parser is a dependency: \<open>parseYaml\<close> is a
  parameter, \<open>None\<close> where it raises.
\<close>

definition getParamsFromSource :: "(string \<Rightarrow> jsvalue option) \<Rightarrow> string \<Rightarrow> exn + params" where
  "getParamsFromSource parseYaml source =
     (let links = match_links source;
          source1 = hide_links links source;
          parsed = (case parseYaml source1 of Some v \<Rightarrow> v | None \<Rightarrow> parse_manually source1);
          params = (if \<not> truthy parsed then JObj [] else parsed)
      in case restore_links links params source1 of
           Inl e \<Rightarrow> Inl e
         | Inr (params', source') \<Rightarrow> finish_params params' source')"

text \<open>
  The arrays of the parameter object as the caller hands them to \<open>getImmutableItems\<close>:
  the strings of an array, and the arrays of strings of an array.
\<close>

definition string_array :: "jsvalue \<Rightarrow> string list" where
  "string_array v = (case v of JArr xs \<Rightarrow> concat (map (\<lambda>x. case x of JStr s \<Rightarrow> [s] | _ \<Rightarrow> []) xs) | _ \<Rightarrow> [])"

definition string_arrays :: "jsvalue \<Rightarrow> string list list" where
  "string_arrays v = (case v of JArr xs \<Rightarrow> map string_array xs | _ \<Rightarrow> [])"

subsection \<open>Sample block texts\<close>

text \<open>
  The block of the end-to-end example, and the same block once its link has given way
  to the placeholder.
\<close>

definition example_source :: string where
  "example_source = ''id: test'' @ [CHR 0x0A] @ ''marker: pin,40.0,-75.0,[[Note]],,2,8''"

definition example_hidden :: string where
  "example_hidden =
     ''id: test'' @ [CHR 0x0A] @ ''marker: pin,40.0,-75.0,LEAFLET_INTERNAL_LINK_0,,2,8''"

text \<open>
  What a YAML parser returns for four block texts: two mappings of plain scalars, a plain
  scalar, and a mapping to an empty flow sequence. On any other text this stand-in
  raises.
\<close>

definition yaml_samples :: "string \<Rightarrow> jsvalue option" where
  "yaml_samples s =
     (if s = example_hidden
      then Some (JObj [(''id'', JStr ''test''),
                       (''marker'', JStr ''pin,40.0,-75.0,LEAFLET_INTERNAL_LINK_0,,2,8'')])
      else if s = ''id: LEAFLET_INTERNAL_LINK_0''
      then Some (JObj [(''id'', JStr ''LEAFLET_INTERNAL_LINK_0'')])
      else if s = ''hello'' then Some (JStr ''hello'')
      else if s = ''image: []'' then Some (JObj [(''image'', JArr [])])
      else None)"

text \<open>A step for the documents of the cross-document block that does nothing.\<close>

definition no_documents :: "string \<Rightarrow> run \<Rightarrow> run" where
  "no_documents path st = st"

text \<open>The parameter object of the example, and the row of its marker.\<close>

definition example_params :: params where
  "example_params =
     PObject
       [(''id'', JStr ''test''),
        (''marker'', JArr [JStr ''pin,40.0,-75.0,[[Note]],,2,8'']),
        (''layers'', JArr [JStr ''real'']), (''image'', JStr ''real''),
        (''markerFile'', JArr []), (''markerFolder'', JArr []),
        (''markerTag'', JArr []), (''commandMarker'', JArr []),
        (''geojson'', JArr []), (''linksTo'', JArr []),
        (''linksFrom'', JArr [])]"

definition example_row :: "string list" where
  "example_row = [''pin'', ''40.0'', ''-75.0'', ''[[Note]]'', [], ''2'', ''8'']"

text \<open>
  Two link tokens that hold a character of JSON's own, a double quote or a line break,
  and the block that gives such a token as the id.
\<close>

definition link_with_quote :: string where
  "link_with_quote = ''[[a'' @ [CHR 0x22] @ ''b]]''"

definition link_with_break :: string where
  "link_with_break = ''[[a'' @ [CHR 0x0A] @ ''b]]''"

definition id_block :: "string \<Rightarrow> string" where
  "id_block link = ''id: '' @ link"

text \<open>
  A link marker with the zoom bounds 2 and 5 on a map at zoom 3 whose layer is rendered:
  the bag given to the constructor, the map, and the marker the constructor returns,
  which is on the map (\<open>displayed\<close> is true).
\<close>

definition bounded_bag :: "unit markerProperties" where
  "bounded_bag =
     \<lparr>p_id = Val ''ID_18293a4b5c6d'', p_icon = Val (), p_type = Val ''default'',
      p_loc = \<lparr>lat = Fin 40, lng = Fin (-75)\<rparr>, p_link = Val ''Note'',
      p_layer = Undefined, p_mutable = Val True, p_command = Val False, p_zoom = Undefined,
      p_percent = Undefined, p_description = Undefined, p_minZoom = Val (Fin 2),
      p_maxZoom = Val (Fin 5), p_tooltip = Undefined\<rparr>"

definition map_at_zoom_3 :: mapEnv where
  "map_at_zoom_3 = \<lparr>commands = [], getZoom = Fin 3, layerRendered = True, hasGroup = True\<rparr>"

definition displayed_marker :: "unit marker" where
  "displayed_marker =
     \<lparr>m_target = Link (Val ''Note'') Undefined, m_mutable = Val True,
      m_type = Val ''default'', m_command = Val False,
      m_leafletInstance =
        \<lparr>opt_icon = Val (), opt_keyboard = Val True, opt_draggable = Val True,
         data_link = Val ''Note'', data_mutable = ''true'', data_type = Val ''default'',
         on_map = True\<rparr>,
      m_loc = \<lparr>lat = Fin 40, lng = Fin (-75)\<rparr>, m_percent = Undefined,
      m_id = Val ''ID_18293a4b5c6d'', m_layer = Undefined, m_zoom = Undefined,
      m_minZoom = Val (Fin 2), m_maxZoom = Val (Fin 5), m_description = Undefined,
      m_divIcon = Val (), m_displayed = Val True, m_tooltip = Undefined,
      m_popup = Val MapPopup, m_isBeingHovered = False\<rparr>"

section \<open>Properties\<close>

subsection \<open>Marker visibility\<close>

lemma displayed_marker_constructed:
  "new_Marker map_at_zoom_3 bounded_bag = Inr displayed_marker"
  by code_simp

text \<open>
  C5, as stated, fails in its last entry. \<open>shouldHide\<close> has one \<open>return\<close>, the
  \<open>return true\<close> inside both conditions, and no \<open>return false\<close>: for a displayed marker
  with the bounds 2 and 5 at zoom 3, inside the bounds, control leaves the function at its
  end and the call evaluates to \<open>undefined\<close>, which is not the value \<open>false\<close>.
\<close>

theorem shouldHide_inside_bounds_is_undefined:
  "m_minZoom displayed_marker = Val (Fin 2) \<and> m_maxZoom displayed_marker = Val (Fin 5)
   \<and> m_displayed displayed_marker = Val True
   \<and> shouldHide displayed_marker (Fin 3) = Undefined
   \<and> shouldHide displayed_marker (Fin 3) \<noteq> Val False"
  by (simp add: shouldHide_def displayed_marker_def num_gt_def)

text \<open>
  C5, amended. The truth table of the two visibility predicates. A marker with both
  bounds null (or both undefined) is to be shown at every zoom, displayed or not:
  \<open>shouldShow\<close> is true. With the bounds 2 and 5 and not displayed, \<open>shouldShow(3)\<close> is
  true and \<open>shouldShow(1)\<close> is false. With the same bounds and displayed,
  \<open>shouldHide(6)\<close> is true, and \<open>shouldHide(3)\<close> is \<open>undefined\<close>: a falsy value, so the
  marker is not hidden, but not the value \<open>false\<close>.
\<close>

theorem visibility_truth_table:
  "shouldShow (m\<lparr>m_minZoom := Null, m_maxZoom := Null, m_displayed := d\<rparr>) zoom
   \<and> shouldShow (m\<lparr>m_minZoom := Undefined, m_maxZoom := Undefined, m_displayed := d\<rparr>) zoom
   \<and> shouldShow (m\<lparr>m_minZoom := Val (Fin 2), m_maxZoom := Val (Fin 5), m_displayed := Val False\<rparr>) (Fin 3)
   \<and> shouldShow (m\<lparr>m_minZoom := Val (Fin 2), m_maxZoom := Val (Fin 5), m_displayed := Undefined\<rparr>) (Fin 3)
   \<and> \<not> shouldShow (m\<lparr>m_minZoom := Val (Fin 2), m_maxZoom := Val (Fin 5), m_displayed := Val False\<rparr>) (Fin 1)
   \<and> \<not> shouldShow (m\<lparr>m_minZoom := Val (Fin 2), m_maxZoom := Val (Fin 5), m_displayed := Undefined\<rparr>) (Fin 1)
   \<and> shouldHide (m\<lparr>m_minZoom := Val (Fin 2), m_maxZoom := Val (Fin 5), m_displayed := Val True\<rparr>) (Fin 6) = Val True
   \<and> shouldHide (m\<lparr>m_minZoom := Val (Fin 2), m_maxZoom := Val (Fin 5), m_displayed := Val True\<rparr>) (Fin 3) = Undefined
   \<and> shouldHide (m\<lparr>m_minZoom := Val (Fin 2), m_maxZoom := Val (Fin 5), m_displayed := Val True\<rparr>) (Fin 3) \<noteq> Val False
   \<and> \<not> truthy_bool (shouldHide (m\<lparr>m_minZoom := Val (Fin 2), m_maxZoom := Val (Fin 5), m_displayed := Val True\<rparr>) (Fin 3))"
  by (simp add: shouldShow_def shouldHide_def num_le_def num_gt_def)

text \<open>
  C6. A marker with exactly one zoom bound set (the other null or undefined) is never
  to be shown, whatever the zoom and whether it is displayed or not; while it is
  displayed, it is to be hidden as soon as the zoom lies below a lone lower bound or
  above a lone upper bound.
\<close>

theorem single_bound_asymmetry:
  "(nullish other \<longrightarrow>
      \<not> shouldShow (m\<lparr>m_minZoom := Val b, m_maxZoom := other\<rparr>) zoom
    \<and> \<not> shouldShow (m\<lparr>m_minZoom := other, m_maxZoom := Val b\<rparr>) zoom)
   \<and> (nullish other \<and> num_lt zoom b \<longrightarrow>
        shouldHide (m\<lparr>m_minZoom := Val b, m_maxZoom := other, m_displayed := Val True\<rparr>) zoom = Val True)
   \<and> (nullish other \<and> num_lt b zoom \<longrightarrow>
        shouldHide (m\<lparr>m_minZoom := other, m_maxZoom := Val b, m_displayed := Val True\<rparr>) zoom = Val True)"
  by (cases other) (simp_all add: shouldShow_def shouldHide_def num_gt_def)

theorem single_bound_asymmetry_witness:
  "\<forall>m :: unit marker.
     nullish (Null :: number nullable) \<and> num_lt (Fin 1) (Fin 2) \<and> num_lt (Fin 2) (Fin 7)
   \<and> \<not> shouldShow (m\<lparr>m_minZoom := Val (Fin 2), m_maxZoom := Null\<rparr>) (Fin 3)
   \<and> \<not> shouldShow (m\<lparr>m_minZoom := Null, m_maxZoom := Val (Fin 2)\<rparr>) (Fin 1)
   \<and> shouldHide (m\<lparr>m_minZoom := Val (Fin 2), m_maxZoom := Null, m_displayed := Val True\<rparr>) (Fin 1) = Val True
   \<and> shouldHide (m\<lparr>m_minZoom := Null, m_maxZoom := Val (Fin 2), m_displayed := Val True\<rparr>) (Fin 7) = Val True"
proof
  fix m :: "unit marker"
  show "nullish (Null :: number nullable) \<and> num_lt (Fin 1) (Fin 2) \<and> num_lt (Fin 2) (Fin 7)
   \<and> \<not> shouldShow (m\<lparr>m_minZoom := Val (Fin 2), m_maxZoom := Null\<rparr>) (Fin 3)
   \<and> \<not> shouldShow (m\<lparr>m_minZoom := Null, m_maxZoom := Val (Fin 2)\<rparr>) (Fin 1)
   \<and> shouldHide (m\<lparr>m_minZoom := Val (Fin 2), m_maxZoom := Null, m_displayed := Val True\<rparr>) (Fin 1) = Val True
   \<and> shouldHide (m\<lparr>m_minZoom := Null, m_maxZoom := Val (Fin 2), m_displayed := Val True\<rparr>) (Fin 7) = Val True"
    using single_bound_asymmetry [where other = Null and m = m and b = "Fin 2" and zoom = "Fin 3"]
          single_bound_asymmetry [where other = Null and m = m and b = "Fin 2" and zoom = "Fin 1"]
          single_bound_asymmetry [where other = Null and m = m and b = "Fin 2" and zoom = "Fin 7"]
    by simp
qed

subsection \<open>Serialising a marker\<close>

lemma toProperties_set_command: "toProperties (set_command b m) = (toProperties m)\<lparr>s_command := b\<rparr>"
  by (simp add: toProperties_def set_command_def get_link_def)

lemma toProperties_set_mutable: "toProperties (set_mutable b m) = (toProperties m)\<lparr>s_mutable := b\<rparr>"
  by (simp add: toProperties_def set_mutable_def get_link_def)

lemma toProperties_set_type: "toProperties (set_type b m) = (toProperties m)\<lparr>s_type := b\<rparr>"
  by (simp add: toProperties_def set_type_def get_link_def)

lemma toProperties_checkAndAddToMap: "toProperties (checkAndAddToMap env m) = toProperties m"
  by (simp add: toProperties_def checkAndAddToMap_def show_marker_def get_link_def)

lemma target_set_text_Inr: "target_set_text cs t x = Inr t' \<Longrightarrow> target_text t' = x"
  by (cases t) (auto split: sum.splits)

lemma toProperties_set_link:
  "set_link env x m = Inr m' \<Longrightarrow> toProperties m' = (toProperties m)\<lparr>s_link := x\<rparr>"
  by (auto simp add: set_link_def toProperties_def get_link_def split: sum.splits
      dest: target_set_text_Inr)

lemma toProperties_updates:
  "toProperties (m\<lparr>m_id := a\<rparr>) = (toProperties m)\<lparr>s_id := a\<rparr>"
  "toProperties (m\<lparr>m_loc := l\<rparr>) = (toProperties m)\<lparr>s_loc := (lat l, lng l)\<rparr>"
  "toProperties (m\<lparr>m_layer := b\<rparr>) = (toProperties m)\<lparr>s_layer := b\<rparr>"
  "toProperties (m\<lparr>m_divIcon := c\<rparr>) = toProperties m"
  "toProperties (m\<lparr>m_percent := d\<rparr>) = (toProperties m)\<lparr>s_percent := d\<rparr>"
  "toProperties (m\<lparr>m_description := e\<rparr>) = (toProperties m)\<lparr>s_description := e\<rparr>"
  "toProperties (m\<lparr>m_tooltip := f\<rparr>) = (toProperties m)\<lparr>s_tooltip := f\<rparr>"
  "toProperties (m\<lparr>m_popup := g\<rparr>) = toProperties m"
  "toProperties (m\<lparr>m_zoom := h\<rparr>) = (toProperties m)\<lparr>s_zoom := h\<rparr>"
  "toProperties (m\<lparr>m_minZoom := i\<rparr>) = (toProperties m)\<lparr>s_minZoom := i\<rparr>"
  "toProperties (m\<lparr>m_maxZoom := j\<rparr>) = (toProperties m)\<lparr>s_maxZoom := j\<rparr>"
  by (simp_all add: toProperties_def get_link_def)

text \<open>A marker that was constructed serialises to the fields of its property bag.\<close>

lemma toProperties_new_Marker:
  assumes "new_Marker env p = Inr m"
  shows "toProperties m =
     \<lparr>s_id = p_id p, s_type = p_type p, s_loc = (lat (p_loc p), lng (p_loc p)),
      s_link = p_link p, s_layer = p_layer p, s_mutable = p_mutable p,
      s_command = p_command p, s_zoom = p_zoom p, s_percent = p_percent p,
      s_description = p_description p, s_minZoom = p_minZoom p, s_maxZoom = p_maxZoom p,
      s_tooltip = p_tooltip p\<rparr>"
proof -
  from assms obtain m3 m4 where
    m4: "set_link env (p_link p) m3 = Inr m4" and
    m: "m = checkAndAddToMap env
          ((set_command (p_command p) (set_mutable (p_mutable p) (m4\<lparr>m_layer := p_layer p\<rparr>)))
            \<lparr>m_divIcon := p_icon p, m_percent := p_percent p, m_description := p_description p,
              m_tooltip := p_tooltip p,
              m_popup := (if p_tooltip p = Val Always then Val OwnPopup else Val MapPopup),
              m_zoom := p_zoom p, m_minZoom := p_minZoom p, m_maxZoom := p_maxZoom p\<rparr>)" and
    m3: "s_id (toProperties m3) = p_id p" "s_type (toProperties m3) = p_type p"
        "s_loc (toProperties m3) = (lat (p_loc p), lng (p_loc p))"
    unfolding new_Marker_def Let_def
    by (auto split: sum.splits simp add: toProperties_def set_type_def)
  show ?thesis
    unfolding m
    using m3 toProperties_set_link[OF m4]
    by (simp add: toProperties_checkAndAddToMap toProperties_updates toProperties_set_command
        toProperties_set_mutable)
qed

lemma fromSaved_toProperties:
  assumes "new_Marker env p = Inr m"
  shows "fromSaved (p_icon p) (toProperties m) = p"
  by (simp add: toProperties_new_Marker[OF assms] fromSaved_def)

text \<open>
  C8. Round trip through the persisted shape. Take any property bag from which a marker
  can be constructed, and the record \<open>toProperties\<close> gives for that marker. A marker
  can be constructed again from the record (the icon supplied anew, on the same map), and
  every marker constructed from the record, on whatever map and with whatever icon,
  serialises to the very same record: id, type, coordinate pair, link, layer, mutable,
  command, zoom, percent, description, zoom bounds and tooltip mode.
\<close>

theorem toProperties_round_trip:
  assumes "new_Marker env p = Inr m"
  shows "(\<exists>m'. new_Marker env (fromSaved (p_icon p) (toProperties m)) = Inr m'
              \<and> toProperties m' = toProperties m)
       \<and> (\<forall>env' icon' m'. new_Marker env' (fromSaved icon' (toProperties m)) = Inr m'
              \<longrightarrow> toProperties m' = toProperties m)"
proof (intro conjI allI impI)
  show "\<exists>m'. new_Marker env (fromSaved (p_icon p) (toProperties m)) = Inr m'
              \<and> toProperties m' = toProperties m"
    using assms by (simp add: fromSaved_toProperties[OF assms])
next
  fix env' :: mapEnv and icon' :: "'b nullable" and m' :: "'b marker"
  assume again: "new_Marker env' (fromSaved icon' (toProperties m)) = Inr m'"
  show "toProperties m' = toProperties m"
    by (simp add: toProperties_new_Marker[OF again] fromSaved_def)
qed

text \<open>
  A command marker and a link marker on a map with one registered command: both are
  constructed, and both come back from their records.
\<close>

definition sample_env :: mapEnv where
  "sample_env = \<lparr>commands = [\<lparr>cmd_id = ''app:open-help'', cmd_name = ''Open help''\<rparr>],
                 getZoom = Fin 4, layerRendered = True, hasGroup = True\<rparr>"

definition sample_bag :: "bool \<Rightarrow> unit markerProperties" where
  "sample_bag cmd =
     \<lparr>p_id = Val ''ID_18293a4b5c6d'', p_icon = Val (), p_type = Val ''default'',
      p_loc = \<lparr>lat = Fin 40, lng = Fin (-75)\<rparr>,
      p_link = Val (if cmd then ''app:open-help'' else ''Note#Heading|alias''),
      p_layer = Undefined, p_mutable = Val True, p_command = Val cmd, p_zoom = Val (Fin 10),
      p_percent = Undefined, p_description = Null, p_minZoom = Val (Fin 2),
      p_maxZoom = Val (Fin 8), p_tooltip = Val Hover\<rparr>"

theorem toProperties_round_trip_witness:
  "(\<exists>m. new_Marker sample_env (sample_bag True) = Inr m
      \<and> (\<exists>m'. new_Marker sample_env (fromSaved (Val ()) (toProperties m)) = Inr m'
              \<and> toProperties m' = toProperties m))
 \<and> (\<exists>m. new_Marker sample_env (sample_bag False) = Inr m
      \<and> (\<exists>m'. new_Marker sample_env (fromSaved (Val ()) (toProperties m)) = Inr m'
              \<and> toProperties m' = toProperties m))"
proof -
  have built: "\<exists>m. new_Marker sample_env (sample_bag c) = Inr m" for c
    by (cases c)
       (simp_all add: new_Marker_def sample_env_def sample_bag_def Let_def set_link_def
          set_type_def command_getDisplay_def toLowerCase_def lower_char_def trim_def isSpace_def)
  have "\<exists>m. new_Marker sample_env (sample_bag c) = Inr m
      \<and> (\<exists>m'. new_Marker sample_env (fromSaved (Val ()) (toProperties m)) = Inr m'
              \<and> toProperties m' = toProperties m)" for c
  proof -
    from built obtain m where m: "new_Marker sample_env (sample_bag c) = Inr m" by blast
    have "p_icon (sample_bag c) = Val ()" by (simp add: sample_bag_def)
    with toProperties_round_trip[OF m] m show ?thesis by auto
  qed
  then show ?thesis by blast
qed

subsection \<open>Pruning of persisted map records\<close>

lemma foldl_push_map_keeps:
  "r \<in> set mm \<Longrightarrow> \<forall>mp \<in> set maps. \<not> loose_eq_str (md_id r) (map_id mp)
    \<Longrightarrow> r \<in> set (foldl (push_map mapFiles) mm maps)"
  by (induction maps arbitrary: mm) (auto simp: push_map_def)

text \<open>
  C2, as stated, fails for a record without an id: the last filter keeps every record
  whose id is empty or missing (\<open>!id || ...\<close>), however old. The record below has one
  marker, no document, no id, and was last accessed at time 0; a save at time
  \<open>10^12\<close> ms, more than 604,800,000 ms later, keeps it.
\<close>

definition sample_marker :: savedMarkerProperties where
  "sample_marker =
     \<lparr>s_id = Val ''ID_18293a4b5c6d'', s_type = Val ''default'', s_loc = (Fin 40, Fin (-75)),
      s_link = Undefined, s_layer = Undefined, s_mutable = Val True, s_command = Val False,
      s_zoom = Undefined, s_percent = Undefined, s_description = Undefined,
      s_minZoom = Undefined, s_maxZoom = Undefined, s_tooltip = Undefined\<rparr>"

definition old_record_without_id :: "unit savedMapData" where
  "old_record_without_id =
     \<lparr>md_id = Undefined, md_markers = [sample_marker], md_overlays = [], md_files = [],
      md_lastAccessed = Val 0\<rparr>"

theorem old_record_without_id_is_kept:
  "md_markers old_record_without_id \<noteq> [] \<and> md_files old_record_without_id = []
   \<and> md_lastAccessed old_record_without_id = Val 0 \<and> (1000000000000::int) - 0 > 604800000
   \<and> old_record_without_id \<in> set (saveSettings 1000000000000 [] [] [old_record_without_id])"
  by (simp add: saveSettings_def still_wanted_def has_data_def old_record_without_id_def)

text \<open>
  C2, amended. On every save: a record whose marker list and overlay list are both empty
  is not in the list written out, whatever its age; neither is a record with a non-empty
  id, no associated file and a last access more than 604,800,000 ms before the save; and
  a persisted record with markers or overlays and no id is still in the list, whatever
  its age, provided no open map takes its place (none has an id loosely equal to its own).
\<close>

theorem saveSettings_pruning:
  "(\<forall>r. \<not> has_data r \<longrightarrow> r \<notin> set (saveSettings now maps mapFiles mm))
 \<and> (\<forall>r t. truthy_str (md_id r) \<and> md_files r = [] \<and> md_lastAccessed r = Val t
         \<and> now - t > 604800000
        \<longrightarrow> r \<notin> set (saveSettings now maps mapFiles mm))
 \<and> (\<forall>r \<in> set mm. has_data r \<and> \<not> truthy_str (md_id r)
        \<and> (\<forall>mp \<in> set maps. \<not> loose_eq_str (md_id r) (map_id mp))
        \<longrightarrow> r \<in> set (saveSettings now maps mapFiles mm))"
  by (auto simp add: saveSettings_def still_wanted_def since_access_def foldl_push_map_keeps)

text \<open>
  Three persisted records and one open map: an empty record, an old record with an id
  and no document, a fresh record without id; the save keeps the last one only, next to
  the record of the open map.
\<close>

definition sample_records :: "unit savedMapData list" where
  "sample_records =
     [\<lparr>md_id = Val ''empty'', md_markers = [], md_overlays = [], md_files = [''a.md''],
       md_lastAccessed = Val 999999999000\<rparr>,
      \<lparr>md_id = Val ''old'', md_markers = [sample_marker], md_overlays = [], md_files = [],
       md_lastAccessed = Val 0\<rparr>,
      \<lparr>md_id = Val [], md_markers = [sample_marker], md_overlays = [], md_files = [],
       md_lastAccessed = Val 999999999000\<rparr>]"

definition sample_open_map :: "unit mapInterface" where
  "sample_open_map =
     \<lparr>map_id = Val ''open'',
      map_toProperties = \<lparr>md_id = Val ''open'', md_markers = [sample_marker], md_overlays = [],
        md_files = [], md_lastAccessed = Val 1000000000000\<rparr>\<rparr>"

theorem saveSettings_pruning_witness:
  "\<not> has_data (sample_records ! 0)
   \<and> sample_records ! 0 \<notin> set (saveSettings 1000000000000 [sample_open_map] [] sample_records)
   \<and> truthy_str (md_id (sample_records ! 1)) \<and> md_files (sample_records ! 1) = []
   \<and> md_lastAccessed (sample_records ! 1) = Val 0 \<and> (1000000000000::int) - 0 > 604800000
   \<and> sample_records ! 1 \<notin> set (saveSettings 1000000000000 [sample_open_map] [] sample_records)
   \<and> sample_records ! 2 \<in> set sample_records
   \<and> has_data (sample_records ! 2) \<and> \<not> truthy_str (md_id (sample_records ! 2))
   \<and> \<not> loose_eq_str (md_id (sample_records ! 2)) (map_id sample_open_map)
   \<and> sample_records ! 2 \<in> set (saveSettings 1000000000000 [sample_open_map] [] sample_records)"
proof -
  have pre: "\<not> has_data (sample_records ! 0)"
    "truthy_str (md_id (sample_records ! 1))" "md_files (sample_records ! 1) = []"
    "md_lastAccessed (sample_records ! 1) = Val 0"
    "sample_records ! 2 \<in> set sample_records"
    "has_data (sample_records ! 2)" "\<not> truthy_str (md_id (sample_records ! 2))"
    "\<not> loose_eq_str (md_id (sample_records ! 2)) (map_id sample_open_map)"
    by (simp_all add: sample_records_def sample_open_map_def has_data_def)
  show ?thesis
    using pre
      saveSettings_pruning [where now = 1000000000000 and maps = "[sample_open_map]"
        and mapFiles = "[]" and mm = sample_records]
    by auto
qed

subsection \<open>Generated identifiers\<close>

lemma digits_radix_small: "n < 16 \<Longrightarrow> digits_radix 16 n = [digit_char n]"
  by (simp add: digits_radix.simps)

lemma toInt32_draw:
  assumes "0 \<le> x" "x < 1"
  shows "toInt32 (Fin (x * 16)) = \<lfloor>x * 16\<rfloor> \<and> 0 \<le> \<lfloor>x * 16\<rfloor> \<and> \<lfloor>x * 16\<rfloor> < 16"
proof -
  have a: "0 \<le> \<lfloor>x * 16\<rfloor>" using assms by simp
  have b: "\<lfloor>x * 16\<rfloor> < 16" using assms by (simp add: floor_less_iff)
  show ?thesis using a b assms by (simp add: wrap32_def Let_def)
qed

lemma and3_or8: "0 \<le> (r::int) \<Longrightarrow> r < 16 \<Longrightarrow> (r AND 3) OR 8 \<in> {8, 9, 10, 11}"
proof -
  assume "0 \<le> r" "r < 16"
  then have "r = 0 \<or> r = 1 \<or> r = 2 \<or> r = 3 \<or> r = 4 \<or> r = 5 \<or> r = 6 \<or> r = 7 \<or> r = 8
      \<or> r = 9 \<or> r = 10 \<or> r = 11 \<or> r = 12 \<or> r = 13 \<or> r = 14 \<or> r = 15" by arith
  then show ?thesis by auto
qed

lemma digit_char_hex: "d < 16 \<Longrightarrow> digit_char d \<in> set ''0123456789abcdef''"
proof -
  assume "d < 16"
  then have "d = 0 \<or> d = 1 \<or> d = 2 \<or> d = 3 \<or> d = 4 \<or> d = 5 \<or> d = 6 \<or> d = 7 \<or> d = 8
      \<or> d = 9 \<or> d = 10 \<or> d = 11 \<or> d = 12 \<or> d = 13 \<or> d = 14 \<or> d = 15" by arith
  then show ?thesis by (auto simp: digit_char_def)
qed

lemma callback_x:
  assumes "0 \<le> x" "x < 1"
  shows "\<exists>d < 16. getId_callback x CHR ''x'' = [digit_char d]"
proof -
  from toInt32_draw[OF assms] obtain
    t: "toInt32 (Fin (x * 16)) = \<lfloor>x * 16\<rfloor>" and u: "0 \<le> \<lfloor>x * 16\<rfloor>" "\<lfloor>x * 16\<rfloor> < 16" by blast
  from u have n: "nat \<lfloor>x * 16\<rfloor> < 16" by linarith
  have "getId_callback x CHR ''x'' = [digit_char (nat \<lfloor>x * 16\<rfloor>)]"
    unfolding getId_callback_def int_toString_def Let_def t using u n
    by (simp add: digits_radix_small)
  with n show ?thesis by blast
qed

lemma callback_y:
  assumes "0 \<le> x" "x < 1"
  shows "\<exists>d \<in> {8, 9, 10, 11}. getId_callback x CHR ''y'' = [digit_char d]"
proof -
  from toInt32_draw[OF assms] obtain
    t: "toInt32 (Fin (x * 16)) = \<lfloor>x * 16\<rfloor>" and "0 \<le> \<lfloor>x * 16\<rfloor>" "\<lfloor>x * 16\<rfloor> < 16" by blast
  then have "(\<lfloor>x * 16\<rfloor> AND 3) OR 8 \<in> {8, 9, 10, 11}" by (rule_tac and3_or8)
  then show ?thesis using t
    by (auto simp add: getId_callback_def int_toString_def digits_radix_small)
qed

lemma callback_char:
  assumes "0 \<le> x" "x < 1" "c = CHR ''x'' \<or> c = CHR ''y''"
  shows "\<exists>d. getId_callback x c = [d] \<and> d \<in> set ''0123456789abcdef''
           \<and> (c = CHR ''y'' \<longrightarrow> d \<in> set ''89ab'')"
proof (cases "c = CHR ''x''")
  case True
  with callback_x[OF assms(1,2)] show ?thesis by (auto dest: digit_char_hex)
next
  case False
  with assms have c: "c = CHR ''y''" by simp
  from callback_y[OF assms(1,2)] obtain d where
    d: "d \<in> {8, 9, 10, 11}" "getId_callback x CHR ''y'' = [digit_char d]" by blast
  from d(1) have "digit_char d \<in> set ''89ab''" by (auto simp: digit_char_def)
  with d c show ?thesis by auto
qed

text \<open>
  C10. Whatever values in \<open>[0, 1)\<close> the random source returns, the identifier has 15
  characters: \<open>ID_\<close>, then 12 lowercase hexadecimal digits, of which the 2nd, 4th, 6th,
  8th, 10th and 12th (the characters at indices 4, 6, 8, 10, 12, 14) are among
  \<open>8\<close>, \<open>9\<close>, \<open>a\<close>, \<open>b\<close>.
\<close>

theorem getId_shape:
  assumes rnd: "\<forall>k. 0 \<le> rnd k \<and> rnd k < 1"
  shows "length (getId rnd) = 15 \<and> take 3 (getId rnd) = ''ID_''
     \<and> list_all (\<lambda>c. c \<in> set ''0123456789abcdef'') (drop 3 (getId rnd))
     \<and> list_all (\<lambda>i. getId rnd ! i \<in> set ''89ab'') [4, 6, 8, 10, 12, 14]"
proof -
  define D where "D k c = hd (getId_callback (rnd k) c)" for k c
  have cb: "getId_callback (rnd k) c = [D k c] \<and> D k c \<in> set ''0123456789abcdef''
      \<and> (c = CHR ''y'' \<longrightarrow> D k c \<in> set ''89ab'')"
    if "c = CHR ''x'' \<or> c = CHR ''y''" for k c
    using callback_char[of "rnd k" c] rnd that unfolding D_def by auto
  have x: "getId_callback (rnd k) CHR ''x'' = [D k CHR ''x'']" for k using cb by blast
  have y: "getId_callback (rnd k) CHR ''y'' = [D k CHR ''y'']" for k using cb by blast
  have hx: "D k CHR ''x'' \<in> set ''0123456789abcdef''" for k using cb by blast
  have hy: "D k CHR ''y'' \<in> set ''0123456789abcdef''" for k using cb by blast
  have by': "D k CHR ''y'' \<in> set ''89ab''" for k using cb by blast
  have shape: "getId rnd = [CHR ''I'', CHR ''D'', CHR ''_'',
      D 0 CHR ''x'', D 1 CHR ''y'', D 2 CHR ''x'', D 3 CHR ''y'', D 4 CHR ''x'', D 5 CHR ''y'',
      D 6 CHR ''x'', D 7 CHR ''y'', D 8 CHR ''x'', D 9 CHR ''y'', D 10 CHR ''x'', D 11 CHR ''y'']"
    by (simp add: getId_def x y eval_nat_numeral)
  show ?thesis
    unfolding shape using hx hy by' by simp
qed

theorem getId_shape_witness:
  "(\<forall>k::nat. (0::real) \<le> 1 / 2 \<and> (1::real) / 2 < 1)
   \<and> getId (\<lambda>k. 1 / 2) = ''ID_888888888888''
   \<and> length (getId (\<lambda>k. 1 / 2)) = 15
   \<and> list_all (\<lambda>i. getId (\<lambda>k. 1 / 2) ! i \<in> set ''89ab'') [4, 6, 8, 10, 12, 14]"
  using getId_shape[of "\<lambda>k. 1 / 2"]
  by (simp add: getId_def getId_callback_def wrap32_def int_toString_def digits_radix.simps
      digit_char_def)

subsection \<open>Rows of the source block\<close>

lemma for_each_thrown: "thrown st \<noteq> None \<Longrightarrow> for_each body xs st = st"
  unfolding for_each_def by (induction xs) auto

lemma for_each_Cons:
  "for_each body (x # xs) st = (if thrown st = None then for_each body xs (body x st) else st)"
  using for_each_thrown[of st body "x # xs"] by (auto simp: for_each_def)

lemma for_each_Nil: "for_each body [] st = st"
  by (simp add: for_each_def)

lemma for_each_append: "for_each body (xs @ ys) st = for_each body ys (for_each body xs st)"
  by (simp add: for_each_def)

lemma command_row_no_match:
  assumes "parseCSV m = r # rest" "\<not> bad_coordinate (at_str r 1)" "\<not> bad_coordinate (at_str r 2)"
    and "find_command cmds (row_link (at_str r 3)) = None"
  shows "thrown (command_row parseCSV cmds m st) = Some TypeError"
  using assms by (simp add: command_row_def Let_def)

lemma for_each_raises:
  assumes "m \<in> set xs" "\<And>st. thrown (body m st) \<noteq> None"
  shows "thrown (for_each body xs st) \<noteq> None"
proof -
  from assms(1) obtain pre post where xs: "xs = pre @ m # post" by (meson split_list)
  show ?thesis
  proof (cases "thrown (for_each body pre st) = None")
    case True
    then show ?thesis
      unfolding xs for_each_append for_each_Cons
      using assms(2) by (simp add: for_each_thrown)
  next
    case False
    then show ?thesis
      unfolding xs for_each_append by (simp add: for_each_thrown)
  qed
qed

lemma find_command_None:
  "find_command cmds link = None \<longleftrightarrow>
     (\<forall>c \<in> set cmds. Val (cmd_name c) \<noteq> link \<and> Val (cmd_id c) \<noteq> link)"
  by (auto simp add: find_command_def find_None_iff)

lemma find_command_Some:
  "find_command cmds link = Some c \<longleftrightarrow>
     (\<exists>pre post. cmds = pre @ c # post \<and> (Val (cmd_name c) = link \<or> Val (cmd_id c) = link)
        \<and> (\<forall>d \<in> set pre. Val (cmd_name d) \<noteq> link \<and> Val (cmd_id d) \<noteq> link))"
  unfolding find_command_def
proof (induction cmds)
  case Nil
  then show ?case by simp
next
  case (Cons x xs)
  show ?case
  proof (cases "Val (cmd_name x) = link \<or> Val (cmd_id x) = link")
    case True
    show ?thesis
    proof
      assume "find (\<lambda>c. Val (cmd_name c) = link \<or> Val (cmd_id c) = link) (x # xs) = Some c"
      with True have "c = x" by simp
      with True show "\<exists>pre post. x # xs = pre @ c # post \<and> (Val (cmd_name c) = link \<or> Val (cmd_id c) = link)
        \<and> (\<forall>d \<in> set pre. Val (cmd_name d) \<noteq> link \<and> Val (cmd_id d) \<noteq> link)"
        by (intro exI[of _ "[]"] exI[of _ xs]) simp
    next
      assume "\<exists>pre post. x # xs = pre @ c # post \<and> (Val (cmd_name c) = link \<or> Val (cmd_id c) = link)
        \<and> (\<forall>d \<in> set pre. Val (cmd_name d) \<noteq> link \<and> Val (cmd_id d) \<noteq> link)"
      then obtain pre post where p: "x # xs = pre @ c # post"
        "\<forall>d \<in> set pre. Val (cmd_name d) \<noteq> link \<and> Val (cmd_id d) \<noteq> link" by blast
      with True have "pre = []" by (cases pre) auto
      with p True show "find (\<lambda>c. Val (cmd_name c) = link \<or> Val (cmd_id c) = link) (x # xs) = Some c"
        by simp
    qed
  next
    case False
    have "(\<exists>pre post. x # xs = pre @ c # post \<and> (Val (cmd_name c) = link \<or> Val (cmd_id c) = link)
        \<and> (\<forall>d \<in> set pre. Val (cmd_name d) \<noteq> link \<and> Val (cmd_id d) \<noteq> link))
      \<longleftrightarrow> (\<exists>pre post. xs = pre @ c # post \<and> (Val (cmd_name c) = link \<or> Val (cmd_id c) = link)
        \<and> (\<forall>d \<in> set pre. Val (cmd_name d) \<noteq> link \<and> Val (cmd_id d) \<noteq> link))" (is "?L \<longleftrightarrow> ?R")
    proof
      assume ?L
      then obtain pre post where p: "x # xs = pre @ c # post"
        "Val (cmd_name c) = link \<or> Val (cmd_id c) = link"
        "\<forall>d \<in> set pre. Val (cmd_name d) \<noteq> link \<and> Val (cmd_id d) \<noteq> link" by blast
      with False obtain pre' where "pre = x # pre'" by (cases pre) auto
      with p show ?R by auto
    next
      assume ?R
      then obtain pre post where p: "xs = pre @ c # post"
        "Val (cmd_name c) = link \<or> Val (cmd_id c) = link"
        "\<forall>d \<in> set pre. Val (cmd_name d) \<noteq> link \<and> Val (cmd_id d) \<noteq> link" by blast
      with False show ?L by (intro exI[of _ "x # pre"] exI[of _ post]) auto
    qed
    with False Cons.IH show ?thesis by simp
  qed
qed

lemma getImmutableItems_raised:
  assumes "thrown (for_each (command_row parseCSV (listCommands a)) commandMarkers
                    (for_each (marker_row parseCSV) markers new_run)) \<noteq> None"
  shows "getImmutableItems parseCSV a perDocument markers commandMarkers markerTags
           markerFiles markerFolders linksTo linksFrom = Pending"
proof -
  from assms obtain e where
    e: "thrown (for_each (command_row parseCSV (listCommands a)) commandMarkers
                    (for_each (marker_row parseCSV) markers new_run)) = Some e"
    by blast
  then have "run_body parseCSV a perDocument markers commandMarkers markerTags markerFiles
          markerFolders linksTo linksFrom
        = for_each (command_row parseCSV (listCommands a)) commandMarkers
            (for_each (marker_row parseCSV) markers new_run)"
    by (simp add: run_body_def Let_def)
  with e show ?thesis
    by (simp add: getImmutableItems_def Let_def)
qed

lemma csv_row: "csv_one_line ''pin,40,-75,open help'' = [[''pin'', ''40'', ''-75'', ''open help'']]"
  by (simp add: csv_one_line_def split_str.simps)



text \<open>
  C3, as stated, fails: the link is compared with \<open>==\<close>, so the match is sensitive to
  case. With the command \<open>Open help\<close> registered, the row \<open>pin,40,-75,open help\<close>
  names it up to case, and yet no command is found for it: the run ends without a result.
\<close>

theorem command_match_is_case_sensitive:
  "toLowerCase ''open help'' = toLowerCase ''Open help''
   \<and> getImmutableItems csv_one_line sample_app (\<lambda>p st. st) [] [''pin,40,-75,open help'']
        [] [] [] [] [] = Pending"
proof -
  have "thrown (command_row csv_one_line (listCommands sample_app) ''pin,40,-75,open help'' new_run)
        = Some TypeError"
    by (rule command_row_no_match[where parseCSV = csv_one_line
            and r = "[''pin'', ''40'', ''-75'', ''open help'']" and rest = "[]"])
       (simp_all add: csv_row add: at_str_def bad_coordinate_def Number_str_def trim_def isSpace_def
         unsigned_literal_def unsigned_decimal_def is_digit_def digit_of_def lower_char_def
         radix_val_def exponent_part_def scale10_def find_command_def sample_app_def row_link_def
         is_wikilink_def)
  then have "getImmutableItems csv_one_line sample_app (\<lambda>p st. st) [] [''pin,40,-75,open help'']
        [] [] [] [] [] = Pending"
    by (intro getImmutableItems_raised) (simp add: for_each_Cons for_each_Nil new_run_def)
  moreover have "toLowerCase ''open help'' = toLowerCase ''Open help''" by code_simp
  ultimately show ?thesis by simp
qed


text \<open>
  C3, amended. For a command-marker row with two numeric coordinates, the link (after
  the unwrapping of double brackets) is resolved to the first registered command whose
  display name or identifier equals it exactly, case included, and the row yields a
  tuple with that command's identifier and the command flag set. A row whose link equals
  no registered command is not skipped: whichever other rows there are,
  \<open>getImmutableItems\<close> then delivers no result.
\<close>

theorem command_marker_resolution:
  assumes "parseCSV m = r # rest" "\<not> bad_coordinate (at_str r 1)" "\<not> bad_coordinate (at_str r 2)"
  shows "(\<forall>c. find_command cmds (row_link (at_str r 3)) = Some c \<longleftrightarrow>
            (\<exists>pre post. cmds = pre @ c # post
               \<and> (Val (cmd_name c) = row_link (at_str r 3) \<or> Val (cmd_id c) = row_link (at_str r 3))
               \<and> (\<forall>d \<in> set pre. Val (cmd_name d) \<noteq> row_link (at_str r 3)
                                \<and> Val (cmd_id d) \<noteq> row_link (at_str r 3))))
       \<and> (\<forall>c. find_command cmds (row_link (at_str r 3)) = Some c \<longrightarrow>
            command_row parseCSV cmds m st =
              st\<lparr>markersToReturn := markersToReturn st @
                   [[JStr (row_type (at_str r 0)), JNum (Number_field (at_str r 1)),
                     JNum (Number_field (at_str r 2)), JStr (cmd_id c),
                     of_nullable_str (row_layer (at_str r 4)), JBool True, JNull, JNull,
                     row_zoom (at_str r 5), row_zoom (at_str r 6)]]\<rparr>)
       \<and> (m \<in> set commandMarkers
            \<and> (\<forall>c \<in> set (listCommands a). Val (cmd_name c) \<noteq> row_link (at_str r 3)
                                          \<and> Val (cmd_id c) \<noteq> row_link (at_str r 3))
          \<longrightarrow> (\<forall>x. getImmutableItems parseCSV a perDocument markers commandMarkers markerTags
                      markerFiles markerFolders linksTo linksFrom \<noteq> Fulfilled x))"
proof (intro conjI allI impI)
  fix c
  show "find_command cmds (row_link (at_str r 3)) = Some c \<longleftrightarrow>
            (\<exists>pre post. cmds = pre @ c # post
               \<and> (Val (cmd_name c) = row_link (at_str r 3) \<or> Val (cmd_id c) = row_link (at_str r 3))
               \<and> (\<forall>d \<in> set pre. Val (cmd_name d) \<noteq> row_link (at_str r 3)
                                \<and> Val (cmd_id d) \<noteq> row_link (at_str r 3)))"
    by (rule find_command_Some)
next
  fix c
  assume "find_command cmds (row_link (at_str r 3)) = Some c"
  with assms show "command_row parseCSV cmds m st =
              st\<lparr>markersToReturn := markersToReturn st @
                   [[JStr (row_type (at_str r 0)), JNum (Number_field (at_str r 1)),
                     JNum (Number_field (at_str r 2)), JStr (cmd_id c),
                     of_nullable_str (row_layer (at_str r 4)), JBool True, JNull, JNull,
                     row_zoom (at_str r 5), row_zoom (at_str r 6)]]\<rparr>"
    by (simp add: command_row_def Let_def)
next
  fix x
  assume a: "m \<in> set commandMarkers
            \<and> (\<forall>c \<in> set (listCommands a). Val (cmd_name c) \<noteq> row_link (at_str r 3)
                                          \<and> Val (cmd_id c) \<noteq> row_link (at_str r 3))"
  then have none: "find_command (listCommands a) (row_link (at_str r 3)) = None"
    by (simp add: find_command_None)
  have "thrown (for_each (command_row parseCSV (listCommands a)) commandMarkers s) \<noteq> None" for s
  proof (rule for_each_raises[of m])
    show "m \<in> set commandMarkers" using a by simp
  next
    fix st
    have "thrown (command_row parseCSV (listCommands a) m st) = Some TypeError"
      using assms none by (rule command_row_no_match)
    then show "thrown (command_row parseCSV (listCommands a) m st) \<noteq> None" by simp
  qed
  then show "getImmutableItems parseCSV a perDocument markers commandMarkers markerTags
                      markerFiles markerFolders linksTo linksFrom \<noteq> Fulfilled x"
    by (simp add: getImmutableItems_raised)
qed


theorem command_marker_resolution_witness:
  "csv_one_line ''pin,40,-75,Open help'' = [''pin'', ''40'', ''-75'', ''Open help''] # []
   \<and> \<not> bad_coordinate (at_str [''pin'', ''40'', ''-75'', ''Open help''] 1)
   \<and> \<not> bad_coordinate (at_str [''pin'', ''40'', ''-75'', ''Open help''] 2)
   \<and> find_command (listCommands sample_app) (row_link (at_str [''pin'', ''40'', ''-75'', ''Open help''] 3))
       = Some \<lparr>cmd_id = ''app:open-help'', cmd_name = ''Open help''\<rparr>
   \<and> markersToReturn (command_row csv_one_line (listCommands sample_app) ''pin,40,-75,Open help'' new_run)
       = [[JStr ''pin'', JNum (Fin 40), JNum (Fin (- 75)), JStr ''app:open-help'', JUndefined,
           JBool True, JNull, JNull, JUndefined, JUndefined]]
   \<and> csv_one_line ''pin,40,-75,open help'' = [''pin'', ''40'', ''-75'', ''open help''] # []
   \<and> ''pin,40,-75,open help'' \<in> set [''pin,40,-75,Open help'', ''pin,40,-75,open help'']
   \<and> find_command (listCommands sample_app) (row_link (at_str [''pin'', ''40'', ''-75'', ''open help''] 3))
       = None
   \<and> (\<forall>x. getImmutableItems csv_one_line sample_app (\<lambda>p st. st) []
              [''pin,40,-75,Open help'', ''pin,40,-75,open help''] [] [] [] [] [] \<noteq> Fulfilled x)"
proof -
  have rowA: "csv_one_line ''pin,40,-75,Open help'' = [''pin'', ''40'', ''-75'', ''Open help''] # []"
    by (simp add: csv_one_line_def split_str.simps)
  have rowB: "csv_one_line ''pin,40,-75,open help'' = [''pin'', ''40'', ''-75'', ''open help''] # []"
    by (simp add: csv_one_line_def split_str.simps)
  have coords:
    "\<not> bad_coordinate (at_str [''pin'', ''40'', ''-75'', l] 1)"
    "\<not> bad_coordinate (at_str [''pin'', ''40'', ''-75'', l] 2)" for l
    by (simp_all add: at_str_def bad_coordinate_def Number_str_def trim_def isSpace_def
         unsigned_literal_def unsigned_decimal_def is_digit_def digit_of_def lower_char_def
         radix_val_def exponent_part_def scale10_def)
  have fields:
    "row_type (at_str [''pin'', ''40'', ''-75'', l] 0) = ''pin''"
    "Number_field (at_str [''pin'', ''40'', ''-75'', l] 1) = Fin 40"
    "Number_field (at_str [''pin'', ''40'', ''-75'', l] 2) = Fin (- 75)"
    "row_layer (at_str [''pin'', ''40'', ''-75'', l] 4) = Undefined"
    "row_zoom (at_str [''pin'', ''40'', ''-75'', l] 5) = JUndefined"
    "row_zoom (at_str [''pin'', ''40'', ''-75'', l] 6) = JUndefined" for l
    by (simp_all add: at_str_def row_type_def row_layer_def row_zoom_def Number_str_def trim_def
         isSpace_def unsigned_literal_def unsigned_decimal_def is_digit_def digit_of_def
         lower_char_def radix_val_def exponent_part_def scale10_def)
  have foundA: "find_command (listCommands sample_app)
       (row_link (at_str [''pin'', ''40'', ''-75'', ''Open help''] 3))
       = Some \<lparr>cmd_id = ''app:open-help'', cmd_name = ''Open help''\<rparr>"
    by (simp add: find_command_def sample_app_def row_link_def at_str_def is_wikilink_def)
  have noneB: "find_command (listCommands sample_app)
       (row_link (at_str [''pin'', ''40'', ''-75'', ''open help''] 3)) = None"
    by (simp add: find_command_def sample_app_def row_link_def at_str_def is_wikilink_def)
  then have no_match: "\<forall>c \<in> set (listCommands sample_app).
       Val (cmd_name c) \<noteq> row_link (at_str [''pin'', ''40'', ''-75'', ''open help''] 3)
       \<and> Val (cmd_id c) \<noteq> row_link (at_str [''pin'', ''40'', ''-75'', ''open help''] 3)"
    by (simp add: find_command_None)
  note A = command_marker_resolution [where parseCSV = csv_one_line
      and m = "''pin,40,-75,Open help''" and r = "[''pin'', ''40'', ''-75'', ''Open help'']"
      and rest = "[]" and cmds = "listCommands sample_app" and st = new_run,
      OF rowA coords]
  note B = command_marker_resolution [where parseCSV = csv_one_line
      and m = "''pin,40,-75,open help''" and r = "[''pin'', ''40'', ''-75'', ''open help'']"
      and rest = "[]" and a = sample_app and perDocument = "\<lambda>p st. st" and markers = "[]"
      and commandMarkers = "[''pin,40,-75,Open help'', ''pin,40,-75,open help'']"
      and markerTags = "[]" and markerFiles = "[]" and markerFolders = "[]"
      and linksTo = "[]" and linksFrom = "[]",
      OF rowB coords]
  from A foundA have eq:
    "command_row csv_one_line (listCommands sample_app) ''pin,40,-75,Open help'' new_run =
       new_run\<lparr>markersToReturn := markersToReturn new_run @
          [[JStr (row_type (at_str [''pin'', ''40'', ''-75'', ''Open help''] 0)),
            JNum (Number_field (at_str [''pin'', ''40'', ''-75'', ''Open help''] 1)),
            JNum (Number_field (at_str [''pin'', ''40'', ''-75'', ''Open help''] 2)),
            JStr (cmd_id \<lparr>cmd_id = ''app:open-help'', cmd_name = ''Open help''\<rparr>),
            of_nullable_str (row_layer (at_str [''pin'', ''40'', ''-75'', ''Open help''] 4)),
            JBool True, JNull, JNull,
            row_zoom (at_str [''pin'', ''40'', ''-75'', ''Open help''] 5),
            row_zoom (at_str [''pin'', ''40'', ''-75'', ''Open help''] 6)]]\<rparr>"
    by blast
  have pushed:
    "markersToReturn (command_row csv_one_line (listCommands sample_app) ''pin,40,-75,Open help'' new_run)
       = [[JStr ''pin'', JNum (Fin 40), JNum (Fin (- 75)), JStr ''app:open-help'', JUndefined,
           JBool True, JNull, JNull, JUndefined, JUndefined]]"
    unfolding eq fields by (simp add: new_run_def)
  from B no_match have stuck:
    "\<forall>x. getImmutableItems csv_one_line sample_app (\<lambda>p st. st) []
              [''pin,40,-75,Open help'', ''pin,40,-75,open help''] [] [] [] [] [] \<noteq> Fulfilled x"
    by simp
  show ?thesis
    using rowA rowB coords foundA noneB pushed stuck by simp
qed

subsection \<open>The guard of the cross-document block\<close>

lemma cross_document_empty: "cross_document a perDocument [] [] [] [] [] st = st"
  by (simp add: cross_document_def candidate_files_def
      new_Set_def filter_by_tags_def missing_index_errors_def for_each_def split: option.splits)


text \<open>
  C9. With all five filter lists empty the condition of the block still holds, because
  its last operand is the array \<open>linksFrom\<close> and not its length: the block is entered
  on every call. Entered with empty lists it builds an empty set of candidates, shows no
  notice and visits no document, so the state of the run is unchanged.
\<close>

theorem cross_document_block_always_entered:
  "cross_document_condition [] [] [] [] []
   \<and> cross_document a perDocument [] [] [] [] [] st = st"
  by (simp add: cross_document_condition_def array_truthy_def cross_document_empty)

subsection \<open>The end-to-end example\<close>

lemma example_links: "match_links example_source = [''[[Note]]'']"
  by code_simp

lemma example_hide: "hide_links [''[[Note]]''] example_source = example_hidden"
  by code_simp

lemma example_restore:
  "restore_links [''[[Note]]'']
     (JObj [(''id'', JStr ''test''),
            (''marker'', JStr ''pin,40.0,-75.0,LEAFLET_INTERNAL_LINK_0,,2,8'')])
     example_hidden
   = Inr (JObj [(''id'', JStr ''test''), (''marker'', JStr ''pin,40.0,-75.0,[[Note]],,2,8'')],
          example_source)"
  by code_simp

lemma example_manually:
  "parse_manually example_hidden =
     JObj [(''id'', JStr ''test''),
           (''marker'', JStr ''pin,40.0,-75.0,LEAFLET_INTERNAL_LINK_0,,2,8'')]"
  by code_simp

lemma example_finish:
  "finish_params
     (JObj [(''id'', JStr ''test''), (''marker'', JStr ''pin,40.0,-75.0,[[Note]],,2,8'')])
     example_source
   = Inr example_params"
  by code_simp

lemma example_getParams:
  assumes "parseYaml example_hidden
             = Some (JObj [(''id'', JStr ''test''),
                           (''marker'', JStr ''pin,40.0,-75.0,LEAFLET_INTERNAL_LINK_0,,2,8'')])
           \<or> parseYaml example_hidden = None"
  shows "getParamsFromSource parseYaml example_source = Inr example_params"
  using assms
  unfolding getParamsFromSource_def Let_def example_links example_hide
  by (auto simp add: example_manually example_restore example_finish)

lemma example_arrays:
  "string_array (get_prop example_params ''marker'') = [''pin,40.0,-75.0,[[Note]],,2,8'']"
  "string_array (get_prop example_params ''commandMarker'') = []"
  "string_arrays (get_prop example_params ''markerTag'') = []"
  "string_array (get_prop example_params ''markerFile'') = []"
  "string_array (get_prop example_params ''markerFolder'') = []"
  "string_array (get_prop example_params ''linksTo'') = []"
  "string_array (get_prop example_params ''linksFrom'') = []"
  by code_simp+

lemma example_fields:
  "row_type (at_str example_row 0) = ''pin''"
  "bad_coordinate (at_str example_row 1) = False"
  "bad_coordinate (at_str example_row 2) = False"
  "Number_field (at_str example_row 1) = Fin 40"
  "Number_field (at_str example_row 2) = Fin (- 75)"
  "row_link (at_str example_row 3) = Val ''Note''"
  "row_layer (at_str example_row 4) = Undefined"
  "row_zoom (at_str example_row 5) = JNum (Fin 2)"
  "row_zoom (at_str example_row 6) = JNum (Fin 8)"
  by code_simp+

lemma example_marker_row:
  assumes "parseCSV ''pin,40.0,-75.0,[[Note]],,2,8'' = [example_row]"
  shows "marker_row parseCSV ''pin,40.0,-75.0,[[Note]],,2,8'' st =
           st\<lparr>markersToReturn := markersToReturn st @
               [[JStr ''pin'', JNum (Fin 40), JNum (Fin (- 75)), JStr ''Note'', JUndefined,
                 JBool False, JNull, JNull, JNum (Fin 2), JNum (Fin 8)]]\<rparr>"
proof -
  have r: "[example_row] ! 0 = example_row" by simp
  show ?thesis
    unfolding marker_row_def Let_def assms r example_fields
    by simp
qed

lemma example_getImmutableItems:
  assumes "parseCSV ''pin,40.0,-75.0,[[Note]],,2,8'' = [example_row]"
  shows "getImmutableItems parseCSV a perDocument [''pin,40.0,-75.0,[[Note]],,2,8''] [] [] [] [] [] []
         = Fulfilled
            \<lparr>i_markers =
               [[JStr ''pin'', JNum (Fin 40), JNum (Fin (- 75)), JStr ''Note'', JUndefined,
                 JBool False, JNull, JNull, JNum (Fin 2), JNum (Fin 8)]],
             i_overlays = [], i_files = []\<rparr>"
proof -
  note row = example_marker_row[where parseCSV = parseCSV, OF assms]
  show ?thesis
    unfolding getImmutableItems_def run_body_def Let_def
    by (simp add: for_each_def row cross_document_empty new_run_def)
qed

lemma csv_example: "csv_one_line ''pin,40.0,-75.0,[[Note]],,2,8'' = [example_row]"
  by code_simp

lemma yaml_example: "yaml_samples example_hidden
             = Some (JObj [(''id'', JStr ''test''),
                           (''marker'', JStr ''pin,40.0,-75.0,LEAFLET_INTERNAL_LINK_0,,2,8'')])"
  by (simp add: yaml_samples_def)


text \<open>
  C1, as stated, fails in the first component of the tuple: the row names the type
  \<open>pin\<close>, and the type is replaced by \<open>default\<close> only when it is empty or the text
  \<open>undefined\<close>. The block is parsed to the parameters \<open>example_params\<close>, whose only
  marker specification yields one tuple, with the type \<open>pin\<close>.
\<close>

theorem example_tuple_has_type_pin:
  "getParamsFromSource yaml_samples example_source = Inr example_params
   \<and> string_array (get_prop example_params ''marker'') = [''pin,40.0,-75.0,[[Note]],,2,8'']
   \<and> getImmutableItems csv_one_line sample_app no_documents
        [''pin,40.0,-75.0,[[Note]],,2,8''] [] [] [] [] [] []
       = Fulfilled
           \<lparr>i_markers =
              [[JStr ''pin'', JNum (Fin 40), JNum (Fin (- 75)), JStr ''Note'', JUndefined,
                JBool False, JNull, JNull, JNum (Fin 2), JNum (Fin 8)]],
            i_overlays = [], i_files = []\<rparr>
   \<and> [JStr ''pin'', JNum (Fin 40), JNum (Fin (- 75)), JStr ''Note'', JUndefined,
        JBool False, JNull, JNull, JNum (Fin 2), JNum (Fin 8)]
       \<noteq> [JStr ''default'', JNum (Fin 40), JNum (Fin (- 75)), JStr ''Note'', JUndefined,
           JBool False, JNull, JNull, JNum (Fin 2), JNum (Fin 8)]"
proof -
  have "getParamsFromSource yaml_samples example_source = Inr example_params"
    by (rule example_getParams) (simp add: yaml_example)
  moreover note example_arrays(1)
  moreover have "getImmutableItems csv_one_line sample_app no_documents
        [''pin,40.0,-75.0,[[Note]],,2,8''] [] [] [] [] [] []
       = Fulfilled
           \<lparr>i_markers =
              [[JStr ''pin'', JNum (Fin 40), JNum (Fin (- 75)), JStr ''Note'', JUndefined,
                JBool False, JNull, JNull, JNum (Fin 2), JNum (Fin 8)]],
            i_overlays = [], i_files = []\<rparr>"
    by (rule example_getImmutableItems[where parseCSV = csv_one_line, OF csv_example])
  ultimately show ?thesis by simp
qed

text \<open>
  C1, amended. For the source text \<open>id: test\<close>, line break,
  \<open>marker: pin,40.0,-75.0,[[Note]],,2,8\<close>: whether the YAML parser reads the text with
  the placeholder as the mapping it writes or rejects it, and with a CSV parser that
  cuts the row at its commas, \<open>getParamsFromSource\<close> returns a parameter object, and
  \<open>getImmutableItems\<close> on its marker specifications (whatever the application and the
  step for documents) yields exactly one marker tuple,
  \<open>("pin", 40, -75, "Note", undefined, false, null, null, 2, 8)\<close>, no overlay and no
  watched document.
\<close>

theorem end_to_end_example:
  assumes "parseYaml example_hidden
             = Some (JObj [(''id'', JStr ''test''),
                           (''marker'', JStr ''pin,40.0,-75.0,LEAFLET_INTERNAL_LINK_0,,2,8'')])
           \<or> parseYaml example_hidden = None"
    and "parseCSV ''pin,40.0,-75.0,[[Note]],,2,8''
           = [[''pin'', ''40.0'', ''-75.0'', ''[[Note]]'', [], ''2'', ''8'']]"
  shows "\<exists>p. getParamsFromSource parseYaml example_source = Inr p
     \<and> getImmutableItems parseCSV a perDocument
          (string_array (get_prop p ''marker'')) (string_array (get_prop p ''commandMarker''))
          (string_arrays (get_prop p ''markerTag'')) (string_array (get_prop p ''markerFile''))
          (string_array (get_prop p ''markerFolder'')) (string_array (get_prop p ''linksTo''))
          (string_array (get_prop p ''linksFrom''))
        = Fulfilled
           \<lparr>i_markers =
              [[JStr ''pin'', JNum (Fin 40), JNum (Fin (- 75)), JStr ''Note'', JUndefined,
                JBool False, JNull, JNull, JNum (Fin 2), JNum (Fin 8)]],
            i_overlays = [], i_files = []\<rparr>"
proof -
  have p: "getParamsFromSource parseYaml example_source = Inr example_params"
    using assms(1) by (rule example_getParams)
  have csv: "parseCSV ''pin,40.0,-75.0,[[Note]],,2,8'' = [example_row]"
    using assms(2) by (simp add: example_row_def)
  have "getImmutableItems parseCSV a perDocument
          (string_array (get_prop example_params ''marker''))
          (string_array (get_prop example_params ''commandMarker''))
          (string_arrays (get_prop example_params ''markerTag''))
          (string_array (get_prop example_params ''markerFile''))
          (string_array (get_prop example_params ''markerFolder''))
          (string_array (get_prop example_params ''linksTo''))
          (string_array (get_prop example_params ''linksFrom''))
        = Fulfilled
           \<lparr>i_markers =
              [[JStr ''pin'', JNum (Fin 40), JNum (Fin (- 75)), JStr ''Note'', JUndefined,
                JBool False, JNull, JNull, JNum (Fin 2), JNum (Fin 8)]],
            i_overlays = [], i_files = []\<rparr>"
    unfolding example_arrays
    by (rule example_getImmutableItems[where parseCSV = parseCSV, OF csv])
  with p show ?thesis by blast
qed

theorem end_to_end_example_witness:
  "yaml_samples example_hidden
     = Some (JObj [(''id'', JStr ''test''),
                   (''marker'', JStr ''pin,40.0,-75.0,LEAFLET_INTERNAL_LINK_0,,2,8'')])
   \<and> csv_one_line ''pin,40.0,-75.0,[[Note]],,2,8''
       = [[''pin'', ''40.0'', ''-75.0'', ''[[Note]]'', [], ''2'', ''8'']]
   \<and> (\<exists>p. getParamsFromSource yaml_samples example_source = Inr p
     \<and> getImmutableItems csv_one_line sample_app no_documents
          (string_array (get_prop p ''marker'')) (string_array (get_prop p ''commandMarker''))
          (string_arrays (get_prop p ''markerTag'')) (string_array (get_prop p ''markerFile''))
          (string_array (get_prop p ''markerFolder'')) (string_array (get_prop p ''linksTo''))
          (string_array (get_prop p ''linksFrom''))
        = Fulfilled
           \<lparr>i_markers =
              [[JStr ''pin'', JNum (Fin 40), JNum (Fin (- 75)), JStr ''Note'', JUndefined,
                JBool False, JNull, JNull, JNum (Fin 2), JNum (Fin 8)]],
            i_overlays = [], i_files = []\<rparr>)"
proof -
  have y: "yaml_samples example_hidden
     = Some (JObj [(''id'', JStr ''test''),
                   (''marker'', JStr ''pin,40.0,-75.0,LEAFLET_INTERNAL_LINK_0,,2,8'')])"
    by (rule yaml_example)
  have c: "csv_one_line ''pin,40.0,-75.0,[[Note]],,2,8''
       = [[''pin'', ''40.0'', ''-75.0'', ''[[Note]]'', [], ''2'', ''8'']]"
    using csv_example by (simp add: example_row_def)
  from y have y': "yaml_samples example_hidden
     = Some (JObj [(''id'', JStr ''test''),
                   (''marker'', JStr ''pin,40.0,-75.0,LEAFLET_INTERNAL_LINK_0,,2,8'')])
     \<or> yaml_samples example_hidden = None" by simp
  show ?thesis
    using y c
      end_to_end_example [where parseYaml = yaml_samples and parseCSV = csv_one_line
        and a = sample_app and perDocument = no_documents, OF y' c]
    by simp
qed

subsection \<open>Block texts on which the parser raises\<close>

lemma primitive_raises:
  assumes "match_links source = []" "parseYaml source = Some v" "truthy v"
    and "to_params v = PPrimitive v"
  shows "getParamsFromSource parseYaml source = Inl (Raised TypeError)"
  using assms
  by (simp add: getParamsFromSource_def Let_def hide_links_def restore_links_def
      finish_params_def)

lemma quote_links:
  "match_links (id_block link_with_quote) = [link_with_quote]"
  "match_links (id_block link_with_break) = [link_with_break]"
  by code_simp+

lemma quote_hide:
  "hide_links [link_with_quote] (id_block link_with_quote)
     = ''id: LEAFLET_INTERNAL_LINK_0''"
  "hide_links [link_with_break] (id_block link_with_break)
     = ''id: LEAFLET_INTERNAL_LINK_0''"
  by code_simp+

lemma quote_manually:
  "parse_manually ''id: LEAFLET_INTERNAL_LINK_0'' = JObj [(''id'', JStr ''LEAFLET_INTERNAL_LINK_0'')]"
  by code_simp

lemma quote_restore:
  "restore_links [link_with_quote] (JObj [(''id'', JStr ''LEAFLET_INTERNAL_LINK_0'')])
     ''id: LEAFLET_INTERNAL_LINK_0'' = Inl (Raised SyntaxError)"
  "restore_links [link_with_break] (JObj [(''id'', JStr ''LEAFLET_INTERNAL_LINK_0'')])
     ''id: LEAFLET_INTERNAL_LINK_0'' = Inl (Raised SyntaxError)"
  by code_simp+

lemma broken_link_raises:
  assumes "parseYaml ''id: LEAFLET_INTERNAL_LINK_0''
             = Some (JObj [(''id'', JStr ''LEAFLET_INTERNAL_LINK_0'')])
           \<or> parseYaml ''id: LEAFLET_INTERNAL_LINK_0'' = None"
  shows "getParamsFromSource parseYaml (id_block link_with_quote) = Inl (Raised SyntaxError)"
    and "getParamsFromSource parseYaml (id_block link_with_break) = Inl (Raised SyntaxError)"
  using assms
  unfolding getParamsFromSource_def Let_def quote_links quote_hide
  by (auto simp add: quote_manually quote_restore)

lemma no_links: "match_links ''image: []'' = []" "match_links ''hello'' = []"
  by code_simp+

lemma empty_image_finish:
  "finish_params (JObj [(''image'', JArr [])]) ''image: []'' =
     Inr (PObject
       [(''image'', JUndefined), (''layers'', JArr []),
        (''marker'', JArr []), (''markerFile'', JArr []),
        (''markerFolder'', JArr []), (''markerTag'', JArr []),
        (''commandMarker'', JArr []), (''geojson'', JArr []),
        (''linksTo'', JArr []), (''linksFrom'', JArr [])])"
  by code_simp

lemma empty_image_props:
  "get_prop (PObject
       [(''image'', JUndefined), (''layers'', JArr []),
        (''marker'', JArr []), (''markerFile'', JArr []),
        (''markerFolder'', JArr []), (''markerTag'', JArr []),
        (''commandMarker'', JArr []), (''geojson'', JArr []),
        (''linksTo'', JArr []), (''linksFrom'', JArr [])]) ''layers'' = JArr []"
  "get_prop (PObject
       [(''image'', JUndefined), (''layers'', JArr []),
        (''marker'', JArr []), (''markerFile'', JArr []),
        (''markerFolder'', JArr []), (''markerTag'', JArr []),
        (''commandMarker'', JArr []), (''geojson'', JArr []),
        (''linksTo'', JArr []), (''linksFrom'', JArr [])]) ''image'' = JUndefined"
  by code_simp+


text \<open>
  C4. \<open>getParamsFromSource\<close> is not total. Whenever the block holds no link and the
  YAML parser reads it as a truthy primitive value (a text, a number other than 0, the
  value \<open>true\<close>), the assignment to \<open>params.layers\<close> raises a TypeError: so it is for
  the scalar-only block \<open>hello\<close>. And a link token that holds a double quote or a line
  break breaks the JSON text in which the links are put back: whether the YAML parser
  reads the block with the placeholder as the mapping it writes or rejects it,
  \<open>JSON.parse\<close> raises a SyntaxError, outside the \<open>try\<close>. Both exceptions leave the
  function.
\<close>

theorem getParamsFromSource_raises:
  "(match_links source = [] \<and> parseYaml source = Some v \<and> truthy v
      \<and> to_params v = PPrimitive v
    \<longrightarrow> getParamsFromSource parseYaml source = Inl (Raised TypeError))
   \<and> (parseYaml ''id: LEAFLET_INTERNAL_LINK_0''
          = Some (JObj [(''id'', JStr ''LEAFLET_INTERNAL_LINK_0'')])
        \<or> parseYaml ''id: LEAFLET_INTERNAL_LINK_0'' = None
    \<longrightarrow> getParamsFromSource parseYaml (id_block link_with_quote) = Inl (Raised SyntaxError)
      \<and> getParamsFromSource parseYaml (id_block link_with_break) = Inl (Raised SyntaxError))"
proof (intro conjI impI)
  assume "match_links source = [] \<and> parseYaml source = Some v \<and> truthy v
      \<and> to_params v = PPrimitive v"
  then have "match_links source = []" "parseYaml source = Some v" "truthy v"
    "to_params v = PPrimitive v" by blast+
  then show "getParamsFromSource parseYaml source = Inl (Raised TypeError)"
    by (rule primitive_raises)
next
  assume a: "parseYaml ''id: LEAFLET_INTERNAL_LINK_0''
          = Some (JObj [(''id'', JStr ''LEAFLET_INTERNAL_LINK_0'')])
        \<or> parseYaml ''id: LEAFLET_INTERNAL_LINK_0'' = None"
  show "getParamsFromSource parseYaml (id_block link_with_quote) = Inl (Raised SyntaxError)"
    using a by (rule broken_link_raises(1))
  show "getParamsFromSource parseYaml (id_block link_with_break) = Inl (Raised SyntaxError)"
    using a by (rule broken_link_raises(2))
qed

theorem getParamsFromSource_raises_witness:
  "match_links ''hello'' = [] \<and> yaml_samples ''hello'' = Some (JStr ''hello'')
   \<and> truthy (JStr ''hello'') \<and> to_params (JStr ''hello'') = PPrimitive (JStr ''hello'')
   \<and> getParamsFromSource yaml_samples ''hello'' = Inl (Raised TypeError)
   \<and> yaml_samples ''id: LEAFLET_INTERNAL_LINK_0''
          = Some (JObj [(''id'', JStr ''LEAFLET_INTERNAL_LINK_0'')])
   \<and> getParamsFromSource yaml_samples (id_block link_with_quote) = Inl (Raised SyntaxError)
   \<and> getParamsFromSource yaml_samples (id_block link_with_break) = Inl (Raised SyntaxError)"
proof -
  have pre: "match_links ''hello'' = []" "yaml_samples ''hello'' = Some (JStr ''hello'')"
    "truthy (JStr ''hello'')" "to_params (JStr ''hello'') = PPrimitive (JStr ''hello'')"
    "yaml_samples ''id: LEAFLET_INTERNAL_LINK_0''
          = Some (JObj [(''id'', JStr ''LEAFLET_INTERNAL_LINK_0'')])"
    by code_simp+
  show ?thesis
    using pre getParamsFromSource_raises [where source = "''hello''" and parseYaml = yaml_samples
        and v = "JStr ''hello''"]
    by simp
qed

subsection \<open>A block with an empty list of images\<close>

text \<open>
  C7. For the block \<open>image: []\<close>, which YAML reads as a mapping of \<open>image\<close> to an
  empty sequence, the function returns parameters whose \<open>layers\<close> is the empty array
  and whose \<open>image\<close> is \<open>undefined\<close>: \<open>layers\<close> is not always a non-empty sequence.
\<close>

theorem empty_image_list_gives_no_layer:
  assumes "parseYaml ''image: []'' = Some (JObj [(''image'', JArr [])])"
  shows "\<exists>p. getParamsFromSource parseYaml ''image: []'' = Inr p
           \<and> get_prop p ''layers'' = JArr [] \<and> get_prop p ''image'' = JUndefined"
proof -
  have "getParamsFromSource parseYaml ''image: []'' =
     Inr (PObject
       [(''image'', JUndefined), (''layers'', JArr []),
        (''marker'', JArr []), (''markerFile'', JArr []),
        (''markerFolder'', JArr []), (''markerTag'', JArr []),
        (''commandMarker'', JArr []), (''geojson'', JArr []),
        (''linksTo'', JArr []), (''linksFrom'', JArr [])])"
    unfolding getParamsFromSource_def Let_def no_links
    by (simp add: assms hide_links_def restore_links_def empty_image_finish)
  then show ?thesis using empty_image_props by blast
qed

theorem empty_image_list_gives_no_layer_witness:
  "yaml_samples ''image: []'' = Some (JObj [(''image'', JArr [])])
   \<and> (\<exists>p. getParamsFromSource yaml_samples ''image: []'' = Inr p
           \<and> get_prop p ''layers'' = JArr [] \<and> get_prop p ''image'' = JUndefined)"
proof -
  have y: "yaml_samples ''image: []'' = Some (JObj [(''image'', JArr [])])"
    by code_simp
  show ?thesis
    using y empty_image_list_gives_no_layer [where parseYaml = yaml_samples, OF y]
    by simp
qed

end
